theory Spec2Isabelle
  imports Main
begin

section \<open>Python values\<close>

text \<open>
  The values that producers build and yield. A dict is an association list in insertion
  order whose keys are strings (the keys of a JSON object); \<open>PInterp v\<close> is an
  \<open>Interpolated\<close> object holding the dotted path \<open>v\<close>; \<open>PBlock path body\<close> is a
  \<open>Block\<close> object; \<open>PCollection blocks outputs\<close> is a \<open>Collection\<close> object. Objects are
  compared by value: two references to one object are two equal values.
\<close>

datatype pyval =
    PNone
  | PBool bool
  | PInt int
  | PStr string
  | PList "pyval list"
  | PDict "(string \<times> pyval) list"
  | PInterp string
  | PBlock string "(string \<times> pyval) list"
  | PCollection "pyval list" "(string \<times> pyval) list"

type_synonym dict = "(string \<times> pyval) list"

text \<open>
  The exceptions of the model. \<open>Raised\<close> is an exception of a collaborator (the producer's
  own code, the variable store), named by its message.
\<close>

datatype py_error = TypeError | IndexError | AttributeError string | Raised string

text \<open>Truth value testing. None of the three classes defines \<open>__bool__\<close> or \<open>__len__\<close>.\<close>

fun truthy :: "pyval \<Rightarrow> bool" where
  "truthy PNone = False"
| "truthy (PBool b) = b"
| "truthy (PInt i) = (i \<noteq> 0)"
| "truthy (PStr s) = (s \<noteq> [])"
| "truthy (PList xs) = (xs \<noteq> [])"
| "truthy (PDict d) = (d \<noteq> [])"
| "truthy (PInterp v) = True"
| "truthy (PBlock path body) = True"
| "truthy (PCollection blocks outputs) = True"

fun is_Collection :: "pyval \<Rightarrow> bool" where
  "is_Collection (PCollection blocks outputs) = True"
| "is_Collection v = False"

fun is_dict :: "pyval \<Rightarrow> bool" where
  "is_dict (PDict d) = True"
| "is_dict v = False"

subsection \<open>Dict operations\<close>

text \<open>\<open>d[k] = v\<close>: an existing key keeps its position, a new key goes to the end.\<close>

fun dict_set :: "string \<Rightarrow> pyval \<Rightarrow> dict \<Rightarrow> dict" where
  "dict_set k v [] = [(k, v)]"
| "dict_set k v ((k', v') # d) = (if k' = k then (k, v) # d else (k', v') # dict_set k v d)"

text \<open>\<open>d.get(k)\<close>, which is \<open>None\<close> for a missing key.\<close>

definition dict_get :: "dict \<Rightarrow> string \<Rightarrow> pyval" where
  "dict_get d k = (case map_of d k of None \<Rightarrow> PNone | Some v \<Rightarrow> v)"

text \<open>\<open>d.update(other)\<close>, and \<open>dict(pairs)\<close>: every pair is set in turn.\<close>

definition dict_update :: "dict \<Rightarrow> (string \<times> pyval) list \<Rightarrow> dict" where
  "dict_update d other = foldl (\<lambda>acc (k, v). dict_set k v acc) d other"

definition dict_of_pairs :: "(string \<times> pyval) list \<Rightarrow> dict" where
  "dict_of_pairs pairs = dict_update [] pairs"

text \<open>A well-formed dict has no key twice.\<close>

definition wf_dict :: "dict \<Rightarrow> bool" where
  "wf_dict d = distinct (map fst d)"

subsection \<open>String operations\<close>

text \<open>\<open>s.split(c)\<close> for a one-character separator: never empty, \<open>''.split('.') = ['']\<close>.\<close>

fun split_from :: "char \<Rightarrow> string \<Rightarrow> string \<Rightarrow> string list" where
  "split_from c cur [] = [rev cur]"
| "split_from c cur (x # xs) =
     (if x = c then rev cur # split_from c [] xs else split_from c (x # cur) xs)"

definition split :: "char \<Rightarrow> string \<Rightarrow> string list" where
  "split c s = split_from c [] s"

text \<open>\<open>sep.join(parts)\<close>.\<close>

fun join :: "string \<Rightarrow> string list \<Rightarrow> string" where
  "join sep [] = []"
| "join sep [p] = p"
| "join sep (p # q # ps) = p @ sep @ join sep (q # ps)"

text \<open>\<open>s.endswith(suffix)\<close>.\<close>

definition endswith :: "string \<Rightarrow> string \<Rightarrow> bool" where
  "endswith s suffix =
     (length suffix \<le> length s \<and> drop (length s - length suffix) s = suffix)"

section \<open>render.py: Interpolated\<close>

definition Interpolated_str :: "string \<Rightarrow> string" where
  "Interpolated_str v = ''${'' @ v @ ''}''"

definition Interpolated_getattr :: "string \<Rightarrow> string \<Rightarrow> pyval" where
  "Interpolated_getattr v attr = PInterp (v @ ''.'' @ attr)"

text \<open>
  \<open>__eq__\<close> is \<open>str(self) == other\<close>. A string compares by text; for another
  \<open>Interpolated\<close> the string comparison is not implemented and Python falls back to the
  reflected \<open>__eq__\<close> of the other operand, which compares its own text; any other value
  of the model is unequal.
\<close>

fun Interpolated_eq :: "string \<Rightarrow> pyval \<Rightarrow> bool" where
  "Interpolated_eq v (PStr s) = (Interpolated_str v = s)"
| "Interpolated_eq v (PInterp w) = (Interpolated_str w = Interpolated_str v)"
| "Interpolated_eq v other = False"

section \<open>render.py: Block\<close>

text \<open>\<open>Block(path, body=None)\<close> stores \<open>body or {}\<close>.\<close>

definition Block :: "string \<Rightarrow> dict option \<Rightarrow> pyval" where
  "Block path body = PBlock path (case body of None \<Rightarrow> [] | Some b \<Rightarrow> b)"

text \<open>
  \<open>Block.__iter__\<close> builds \<open>result\<close> through the alias \<open>here\<close>, which always names a
  dict inside \<open>result\<close>. The alias is the list of keys that leads from \<open>result\<close> to that
  dict, and a mutation through the alias is a mutation of \<open>result\<close> at that place
  (\<open>at_cursor\<close>); a key list that does not lead to a dict leaves \<open>result\<close> as it is.
\<close>

fun at_cursor :: "string list \<Rightarrow> (dict \<Rightarrow> dict) \<Rightarrow> dict \<Rightarrow> dict" where
  "at_cursor [] f d = f d"
| "at_cursor (k # ks) f d =
     (case map_of d k of
        Some (PDict sub) \<Rightarrow> dict_set k (PDict (at_cursor ks f sub)) d
      | _ \<Rightarrow> d)"

text \<open>One round of \<open>for part in path.split("."): here[part] = {}; here = here[part]\<close>.\<close>

definition iter_step :: "dict \<times> string list \<Rightarrow> string \<Rightarrow> dict \<times> string list" where
  "iter_step st part =
     (at_cursor (snd st) (dict_set part (PDict [])) (fst st), snd st @ [part])"

text \<open>The pairs that \<open>Block.__iter__\<close> yields: the items of \<open>result\<close>.\<close>

definition Block_iter :: "string \<Rightarrow> dict \<Rightarrow> (string \<times> pyval) list" where
  "Block_iter path body =
     (if CHR ''.'' \<in> set path then
        (let st = foldl iter_step ([], []) (split CHR ''.'' path)
         in at_cursor (snd st) (\<lambda>here. dict_update here body) (fst st))
      else dict_set path (PDict body) [])"

text \<open>
  The text an f-string puts for a value. \<open>builtin_str\<close> stands for Python's own \<open>str\<close> of
  the values whose text this development does not fix (numbers, \<open>None\<close>, containers, the
  default text of an object).
\<close>

fun py_format :: "(pyval \<Rightarrow> string) \<Rightarrow> pyval \<Rightarrow> string" where
  "py_format builtin_str (PStr s) = s"
| "py_format builtin_str (PInterp v) = Interpolated_str v"
| "py_format builtin_str (PBlock path body) = path"
| "py_format builtin_str v = builtin_str v"

text \<open>
  \<open>Block.__getattr__(name)\<close>, which Python calls for an attribute that normal lookup does
  not find. \<open>parts[0]\<close> always exists; \<open>parts[1]\<close> raises \<open>IndexError\<close> on a path of one
  segment.
\<close>

definition Block_getattr ::
  "(pyval \<Rightarrow> string) \<Rightarrow> string \<Rightarrow> dict \<Rightarrow> string \<Rightarrow> py_error + pyval" where
  "Block_getattr builtin_str path body name =
     (let parts = split CHR ''.'' path in
      if hd parts = ''resource'' then
        Inr (PInterp (join ''.'' (tl parts @ [name])))
      else if hd parts = ''variable'' then
        Inr (PInterp (join ''.'' ((''var'' # tl parts) @ [name])))
      else if hd parts = ''provider'' then
        (let alias = dict_get body ''alias'' in
         if truthy alias then
           (if length parts < 2 then Inl IndexError
            else Inr (PStr (parts ! 1 @ ''.'' @ py_format builtin_str alias)))
         else
           (if length parts < 2 then Inl IndexError else Inr (PStr (parts ! 1))))
      else Inr (PInterp (join ''.'' (parts @ [name]))))"

text \<open>The textual form a value gets when it is embedded in the output (\<open>json_default\<close>
  for an \<open>Interpolated\<close>, the string itself for a string).\<close>

fun textual_form :: "pyval \<Rightarrow> string option" where
  "textual_form (PStr s) = Some s"
| "textual_form (PInterp v) = Some (Interpolated_str v)"
| "textual_form v = None"

section \<open>collections.py: Collection\<close>

text \<open>
  \<open>Collection.__iter__\<close> over the stored blocks: a stored \<open>Collection\<close> is iterated in
  its turn (\<open>yield from block\<close>), any other block is yielded.
\<close>

fun Collection_iter :: "pyval list \<Rightarrow> pyval list" where
  "Collection_iter [] = []"
| "Collection_iter (PCollection blocks outputs # rest) =
     Collection_iter blocks @ Collection_iter rest"
| "Collection_iter (block # rest) = block # Collection_iter rest"

text \<open>\<open>Collection.__getattr__(name)\<close>, called for an attribute that normal lookup does
  not find.\<close>

definition Collection_getattr :: "dict \<Rightarrow> string \<Rightarrow> py_error + pyval" where
  "Collection_getattr outputs name =
     (case map_of outputs name of
        Some v \<Rightarrow> Inr v
      | None \<Rightarrow> Inl (AttributeError (''output not defined: '' @ name)))"

section \<open>render.py: unwrap_yielded\<close>

text \<open>
  The items the generator \<open>unwrap_yielded(yielded)\<close> produces. The last branch is
  \<open>yield from yielded\<close>: a list gives its elements, a \<open>Collection\<close> what its \<open>__iter__\<close>
  gives, a string its characters, and a value that cannot be iterated raises
  \<open>TypeError\<close> before any item.
\<close>

fun unwrap_yielded :: "pyval \<Rightarrow> py_error + pyval list" where
  "unwrap_yielded (PBlock path body) = Inr [PDict (dict_of_pairs (Block_iter path body))]"
| "unwrap_yielded (PDict d) = Inr [PDict d]"
| "unwrap_yielded (PList xs) = Inr xs"
| "unwrap_yielded (PCollection blocks outputs) = Inr (Collection_iter blocks)"
| "unwrap_yielded (PStr s) = Inr (map (\<lambda>c. PStr [c]) s)"
| "unwrap_yielded v = Inl TypeError"

section \<open>Collaborators\<close>

text \<open>
  \<open>variables.py\<close> and \<open>parser.py\<close> are not among the sources, and a producer is any
  generator function: what the code needs of them is taken as a parameter.

  A generator that yields some items and may then raise is the list of its items with
  the exception, if any, that ends it. \<open>get_variables_from_block(block, source)\<close> yields
  variable objects and \<open>get_outputs_from_block(block)\<close> yields records with a \<open>name\<close> and
  a \<open>value\<close>; both kinds of object are truthy. \<open>VariableValue\<close> is the constructor of a
  variable value from its name, value and source, \<open>VariableStore\<close> a fresh store.
  \<open>store_add s var allow_change\<close> is \<open>s.add(var, allow_change)\<close>, which may raise;
  \<open>store_contains s name\<close> is \<open>name in s\<close>. \<open>builtin_str\<close> is Python's \<open>str\<close> where
  \<open>py_format\<close> leaves the text open.
\<close>

record ('v, 's) externals =
  get_variables_from_block :: "pyval \<Rightarrow> string \<Rightarrow> 'v list \<times> py_error option"
  get_outputs_from_block :: "pyval \<Rightarrow> (string \<times> pyval) list \<times> py_error option"
  VariableValue :: "string \<Rightarrow> pyval \<Rightarrow> string \<Rightarrow> 'v"
  VariableStore :: "'s"
  store_add :: "'s \<Rightarrow> 'v \<Rightarrow> bool \<Rightarrow> py_error option \<times> 's"
  store_contains :: "'s \<Rightarrow> string \<Rightarrow> bool"
  tfvars_waiting_for :: "'s \<Rightarrow> string \<Rightarrow> bool"
  file_created :: "'s \<Rightarrow> string \<Rightarrow> 's"
  builtin_str :: "pyval \<Rightarrow> string"

text \<open>
  A producer is a coroutine. \<open>send g v w\<close> resumes the generator in state \<open>g\<close> with the
  value \<open>v\<close>, in the surroundings \<open>w\<close> that its code can reach (the variable store behind
  its proxy; for a file's producer the whole renderer, which a read of a variable can
  drive forward): it runs to the next \<open>yield\<close>, to its end or to an exception, and
  gives the new generator state and surroundings.
\<close>

datatype gen_result = Yielded pyval | StopIteration | Raises py_error

type_synonym ('g, 'w) send = "'g \<Rightarrow> pyval \<Rightarrow> 'w \<Rightarrow> gen_result \<times> 'g \<times> 'w"

text \<open>\<open>for var in vars: store.add(var, allow_change)\<close>, up to the first exception.\<close>

fun add_all :: "('v, 's) externals \<Rightarrow> 'v list \<Rightarrow> bool \<Rightarrow> 's \<Rightarrow> py_error option \<times> 's" where
  "add_all X [] allow_change s = (None, s)"
| "add_all X (var # vars) allow_change s =
     (case store_add X s var allow_change of
        (Some e, s') \<Rightarrow> (Some e, s')
      | (None, s') \<Rightarrow> add_all X vars allow_change s')"

section \<open>collections.py: collect\<close>

text \<open>
  The body of \<open>for block in unwrap_yielded(yielded)\<close> for one block: the variables of
  the block go to the store, its outputs to \<open>outputs\<close>, and the block is appended to
  \<open>blocks\<close> when the two loops left \<open>var\<close> and \<open>output\<close> at \<open>None\<close>, that is, when neither
  helper yielded anything. An exception leaves \<open>wrapped\<close>, whose local state is lost.
\<close>

definition collect_block ::
  "('v, 's) externals \<Rightarrow> string \<Rightarrow> pyval \<Rightarrow> 's \<times> pyval list \<times> dict
     \<Rightarrow> py_error + 's \<times> pyval list \<times> dict" where
  "collect_block X func_name block st =
     (case st of (s, blocks, outputs) \<Rightarrow>
      (case get_variables_from_block X block func_name of (vars, vars_error) \<Rightarrow>
       (case add_all X vars True s of
          (Some e, s') \<Rightarrow> Inl e
        | (None, s') \<Rightarrow>
           (case vars_error of
              Some e \<Rightarrow> Inl e
            | None \<Rightarrow>
               (case get_outputs_from_block X block of (outs, outs_error) \<Rightarrow>
                (case outs_error of
                   Some e \<Rightarrow> Inl e
                 | None \<Rightarrow>
                    Inr (s',
                         if vars = [] \<and> outs = [] then blocks @ [block] else blocks,
                         dict_update outputs outs)))))))"

fun collect_blocks ::
  "('v, 's) externals \<Rightarrow> string \<Rightarrow> pyval list \<Rightarrow> 's \<times> pyval list \<times> dict
     \<Rightarrow> py_error + 's \<times> pyval list \<times> dict" where
  "collect_blocks X func_name [] st = Inr st"
| "collect_blocks X func_name (block # rest) st =
     (case collect_block X func_name block st of
        Inl e \<Rightarrow> Inl e
      | Inr st' \<Rightarrow> collect_blocks X func_name rest st')"

text \<open>
  The \<open>while True\<close> loop of \<open>wrapped\<close>, with its local variables \<open>gen\<close>, \<open>yielded\<close>, the
  store, \<open>blocks\<close> and \<open>outputs\<close>. It ends when the generator does and then gives the
  local state; a producer that yields for ever makes it run for ever (\<open>None\<close>).
\<close>

partial_function (option) collect_loop ::
  "('v, 's) externals \<Rightarrow> ('g, 's) send \<Rightarrow> string \<Rightarrow> 'g \<Rightarrow> pyval \<Rightarrow> 's \<times> pyval list \<times> dict
     \<Rightarrow> (py_error + 'g \<times> 's \<times> pyval list \<times> dict) option" where
  "collect_loop X send func_name gen yielded st =
     (case send gen yielded (fst st) of
        (StopIteration, gen', s') \<Rightarrow> Some (Inr (gen', s', snd st))
      | (Raises e, gen', s') \<Rightarrow> Some (Inl e)
      | (Yielded y, gen', s') \<Rightarrow>
          (case unwrap_yielded y of
             Inl e \<Rightarrow> Some (Inl e)
           | Inr items \<Rightarrow>
              (case collect_blocks X func_name items (s', snd st) of
                 Inl e \<Rightarrow> Some (Inl e)
               | Inr st' \<Rightarrow> collect_loop X send func_name gen' y st')))"

text \<open>
  \<open>wrapped(**kwargs)\<close>: the store is seeded from the keyword arguments, the generator
  \<open>gen = func(var_proxy)\<close> is driven from \<open>yielded = None\<close>, and the Collection is built
  from the final \<open>blocks\<close> and \<open>outputs\<close>.
\<close>

definition seed_store :: "('v, 's) externals \<Rightarrow> (string \<times> pyval) list \<Rightarrow> py_error option \<times> 's" where
  "seed_store X kwargs =
     add_all X (map (\<lambda>(key, value). VariableValue X key value ''kwargs'') kwargs) True
       (VariableStore X)"

definition collect ::
  "('v, 's) externals \<Rightarrow> ('g, 's) send \<Rightarrow> string \<Rightarrow> 'g \<Rightarrow> (string \<times> pyval) list
     \<Rightarrow> (py_error + pyval) option" where
  "collect X send func_name gen kwargs =
     (case seed_store X kwargs of
        (Some e, s) \<Rightarrow> Some (Inl e)
      | (None, s) \<Rightarrow>
         (case collect_loop X send func_name gen PNone (s, [], []) of
            None \<Rightarrow> None
          | Some (Inl e) \<Rightarrow> Some (Inl e)
          | Some (Inr (gen', s', blocks, outputs)) \<Rightarrow> Some (Inr (PCollection blocks outputs))))"

section \<open>render.py: RenderJob\<close>

text \<open>
  The fields of a job. \<open>job_path_name\<close> is \<open>self.path.name\<close>, the only use the code
  makes of \<open>self.path\<close>; \<open>job_output_path\<close> and \<open>job_output_name\<close> are computed once by
  \<open>__init__\<close> (pathlib's \<open>with_suffix(".json")\<close> and \<open>name\<close>) and are given here.
  \<open>job_done\<close> is \<open>self.done\<close>, which \<open>__init__\<close> sets and no method changes.
\<close>

record 'g RenderJob =
  job_path_name :: string
  job_gen :: 'g
  job_done :: bool
  job_output_path :: string
  job_output_name :: string
  job_return_value :: pyval
  job_blocks :: "pyval list"

text \<open>The state of a Renderer: the stack of pending jobs (its top is the last element),
  the completed jobs in the order of completion, and the shared variable store.\<close>

record ('g, 's) Renderer =
  jobs :: "'g RenderJob list"
  done_jobs :: "'g RenderJob list"
  variables :: 's

text \<open>The fields that \<open>RenderJob.__init__\<close> sets, for the generator \<open>module.terraform(var)\<close>.\<close>

definition RenderJob_init :: "string \<Rightarrow> string \<Rightarrow> string \<Rightarrow> 'g \<Rightarrow> 'g RenderJob" where
  "RenderJob_init path_name output_path output_name g =
     \<lparr> job_path_name = path_name, job_gen = g, job_done = False,
       job_output_path = output_path, job_output_name = output_name,
       job_return_value = PNone, job_blocks = [] \<rparr>"

text \<open>
  \<open>block.items()\<close>. Only a dict has the method. A list, a string, a number or \<open>None\<close> has
  no such attribute; for a Block, an Interpolated and a Collection the attribute goes to
  \<open>__getattr__\<close>, which raises or gives a value that cannot be called.
\<close>

definition no_attribute :: "string \<Rightarrow> string \<Rightarrow> py_error" where
  "no_attribute type_name attr =
     AttributeError ([CHR 0x27] @ type_name @ [CHR 0x27] @ '' object has no attribute ''
       @ [CHR 0x27] @ attr @ [CHR 0x27])"

fun items :: "('v, 's) externals \<Rightarrow> pyval \<Rightarrow> py_error + (string \<times> pyval) list" where
  "items X (PDict d) = Inr d"
| "items X (PBlock path body) =
     (case Block_getattr (builtin_str X) path body ''items'' of
        Inl e \<Rightarrow> Inl e
      | Inr v \<Rightarrow> Inl TypeError)"
| "items X (PInterp v) = Inl TypeError"
| "items X (PCollection blocks outputs) =
     (case Collection_getattr outputs ''items'' of
        Inl e \<Rightarrow> Inl e
      | Inr v \<Rightarrow> Inl TypeError)"
| "items X (PList xs) = Inl (no_attribute ''list'' ''items'')"
| "items X (PStr s) = Inl (no_attribute ''str'' ''items'')"
| "items X (PInt i) = Inl (no_attribute ''int'' ''items'')"
| "items X (PBool b) = Inl (no_attribute ''bool'' ''items'')"
| "items X PNone = Inl (no_attribute ''NoneType'' ''items'')"

text \<open>\<open>RenderJob.contents\<close>: the loop that merges the blocks of a tfvars file.\<close>

fun merge_blocks :: "('v, 's) externals \<Rightarrow> pyval list \<Rightarrow> dict \<Rightarrow> py_error + dict" where
  "merge_blocks X [] merged = Inr merged"
| "merge_blocks X (block # rest) merged =
     (case items X block of
        Inl e \<Rightarrow> Inl e
      | Inr pairs \<Rightarrow> merge_blocks X rest (dict_update merged pairs))"

definition contents :: "('v, 's) externals \<Rightarrow> 'g RenderJob \<Rightarrow> py_error + pyval" where
  "contents X job =
     (if endswith (job_output_name job) ''.tfvars.json'' then
        (case merge_blocks X (job_blocks job) [] of
           Inl e \<Rightarrow> Inl e
         | Inr merged \<Rightarrow> Inr (PDict merged))
      else Inr (PList (job_blocks job)))"

text \<open>\<open>process_tf_block\<close> and \<open>process_tfvars_block\<close>, on the store: the exception that
  leaves the method, if any, and the store as it is then.\<close>

definition process_tf_block ::
  "('v, 's) externals \<Rightarrow> 'g RenderJob \<Rightarrow> pyval \<Rightarrow> 's \<Rightarrow> py_error option \<times> 's" where
  "process_tf_block X job block s =
     (case get_variables_from_block X block (job_path_name job) of (vars, vars_error) \<Rightarrow>
      (case add_all X vars True s of
         (Some e, s') \<Rightarrow> (Some e, s')
       | (None, s') \<Rightarrow> (vars_error, s')))"

definition process_tfvars_block ::
  "('v, 's) externals \<Rightarrow> 'g RenderJob \<Rightarrow> pyval \<Rightarrow> 's \<Rightarrow> py_error option \<times> 's" where
  "process_tfvars_block X job block s =
     (if tfvars_waiting_for X s (job_output_name job) then
        (case items X block of
           Inl e \<Rightarrow> (Some e, s)
         | Inr pairs \<Rightarrow>
             add_all X
               (map (\<lambda>(name, value). VariableValue X name value (job_path_name job)) pairs)
               False s)
      else (None, s))"

text \<open>The body of \<open>for block in unwrap_yielded(yielded)\<close> in \<open>run\<close>, up to \<open>return False\<close>
  or the first exception.\<close>

fun run_blocks ::
  "('v, 's) externals \<Rightarrow> pyval list \<Rightarrow> 'g RenderJob \<Rightarrow> 's
     \<Rightarrow> (py_error + bool) \<times> 'g RenderJob \<times> 's" where
  "run_blocks X [] job s = (Inr False, job, s)"
| "run_blocks X (block # rest) job s =
     (case (if endswith (job_output_name job) ''.tfvars.json''
            then process_tfvars_block X job block s
            else process_tf_block X job block s) of
        (Some e, s') \<Rightarrow> (Inl e, job, s')
      | (None, s') \<Rightarrow> run_blocks X rest (job\<lparr>job_blocks := job_blocks job @ [block]\<rparr>) s')"

text \<open>
  \<open>RenderJob.run\<close>, for a job that is not on the stack of the renderer \<open>r\<close> (it was
  popped): what it returns or raises, the job and the renderer afterwards.
\<close>

definition run ::
  "('v, 's) externals \<Rightarrow> ('g, ('g, 's) Renderer) send \<Rightarrow> 'g RenderJob \<Rightarrow> ('g, 's) Renderer
     \<Rightarrow> (py_error + bool) \<times> 'g RenderJob \<times> ('g, 's) Renderer" where
  "run X send job r =
     (case send (job_gen job) (job_return_value job) r of
        (StopIteration, g', r') \<Rightarrow>
          (Inr True, job\<lparr>job_gen := g'\<rparr>,
           r'\<lparr>variables := file_created X (variables r') (job_output_name job)\<rparr>)
      | (Raises e, g', r') \<Rightarrow> (Inl e, job\<lparr>job_gen := g'\<rparr>, r')
      | (Yielded y, g', r') \<Rightarrow>
          (case unwrap_yielded y of
             Inl e \<Rightarrow> (Inl e, job\<lparr>job_gen := g', job_return_value := y\<rparr>, r')
           | Inr unwrapped \<Rightarrow>
               (case run_blocks X unwrapped (job\<lparr>job_gen := g', job_return_value := y\<rparr>)
                       (variables r') of
                  (res, job', s') \<Rightarrow> (res, job', r'\<lparr>variables := s'\<rparr>))))"

section \<open>render.py: Renderer\<close>

text \<open>
  The test \<open>until and until in self.variables\<close>, and
  \<open>Renderer.process_jobs(until)\<close>. \<open>None\<close> is a loop that never ends; otherwise the
  exception that left the loop, if any, and the renderer as it is then. A job whose
  \<open>run\<close> raises was popped and is on neither list.
\<close>

definition until_reached :: "('v, 's) externals \<Rightarrow> string option \<Rightarrow> ('g, 's) Renderer \<Rightarrow> bool" where
  "until_reached X until r =
     (case until of
        None \<Rightarrow> False
      | Some name \<Rightarrow> name \<noteq> [] \<and> store_contains X (variables r) name)"

partial_function (option) process_jobs ::
  "('v, 's) externals \<Rightarrow> ('g, ('g, 's) Renderer) send \<Rightarrow> string option \<Rightarrow> ('g, 's) Renderer
     \<Rightarrow> (py_error option \<times> ('g, 's) Renderer) option" where
  "process_jobs X send until r =
     (if jobs r = [] then Some (None, r)
      else if until_reached X until r then Some (None, r)
      else
        (case run X send (last (jobs r)) (r\<lparr>jobs := butlast (jobs r)\<rparr>) of
           (Inl e, job, r') \<Rightarrow> Some (Some e, r')
         | (Inr finished, job, r') \<Rightarrow>
             process_jobs X send until
               (if finished then r'\<lparr>done_jobs := done_jobs r' @ [job]\<rparr>
                else r'\<lparr>jobs := jobs r' @ [job]\<rparr>)))"

text \<open>\<open>Renderer.render\<close>: the results, keyed by output path, and the renderer afterwards.\<close>

fun render_results ::
  "('v, 's) externals \<Rightarrow> 'g RenderJob list \<Rightarrow> dict \<Rightarrow> py_error + dict" where
  "render_results X [] results = Inr results"
| "render_results X (job # rest) results =
     (case contents X job of
        Inl e \<Rightarrow> Inl e
      | Inr c \<Rightarrow> render_results X rest (dict_set (job_output_path job) c results))"

definition render ::
  "('v, 's) externals \<Rightarrow> ('g, ('g, 's) Renderer) send \<Rightarrow> ('g, 's) Renderer
     \<Rightarrow> ((py_error + dict) \<times> ('g, 's) Renderer) option" where
  "render X send r =
     (case process_jobs X send None r of
        None \<Rightarrow> None
      | Some (Some e, r') \<Rightarrow> Some (Inl e, r')
      | Some (None, r') \<Rightarrow> Some (render_results X (done_jobs r') [], r'))"

section \<open>Observing a producer\<close>

text \<open>
  Any producer can be run under observation: \<open>recording send\<close> behaves as \<open>send\<close> does and
  keeps, beside the generator state, the list of the values it was sent and the list of
  the values it yielded, both in order. \<open>forget\<close> drops the two lists from a result of
  \<open>collect_loop\<close>.
\<close>

definition recording :: "('g, 'w) send \<Rightarrow> ('g \<times> pyval list \<times> pyval list, 'w) send" where
  "recording send gl v w =
     (case gl of (g, sent, yielded) \<Rightarrow>
      (case send g v w of (res, g', w') \<Rightarrow>
        (res,
         (g', sent @ [v], (case res of Yielded y \<Rightarrow> yielded @ [y] | _ \<Rightarrow> yielded)),
         w')))"

definition forget ::
  "(py_error + ('g \<times> pyval list \<times> pyval list) \<times> 'r) \<Rightarrow> py_error + 'g \<times> 'r" where
  "forget res = (case res of Inl e \<Rightarrow> Inl e | Inr (gl, rest) \<Rightarrow> Inr (fst gl, rest))"

text \<open>The blocks that one yielded value unwraps to (none when unwrapping raises).\<close>

definition items_of :: "pyval \<Rightarrow> pyval list" where
  "items_of y = (case unwrap_yielded y of Inl e \<Rightarrow> [] | Inr unwrapped \<Rightarrow> unwrapped)"

text \<open>
  How \<open>collect\<close> classifies a block: it is a variable block when
  \<open>get_variables_from_block\<close> yields a variable for it, an output block when
  \<open>get_outputs_from_block\<close> yields an output for it, and ordinary when it is neither.
  \<open>outputs_of\<close> is every (name, value) that the blocks give, in order.
\<close>

definition ordinary :: "('v, 's) externals \<Rightarrow> string \<Rightarrow> pyval \<Rightarrow> bool" where
  "ordinary X func_name block =
     (fst (get_variables_from_block X block func_name) = []
      \<and> fst (get_outputs_from_block X block) = [])"

definition outputs_of :: "('v, 's) externals \<Rightarrow> pyval list \<Rightarrow> (string \<times> pyval) list" where
  "outputs_of X unwrapped =
     concat (map (\<lambda>block. fst (get_outputs_from_block X block)) unwrapped)"

text \<open>
  A job under observation has been sent, and will next be sent, \<open>None\<close> followed by
  everything its producer yielded, in order.
\<close>

definition echoed :: "('g \<times> pyval list \<times> pyval list) RenderJob \<Rightarrow> bool" where
  "echoed job =
     (fst (snd (job_gen job)) @ [job_return_value job] = PNone # snd (snd (job_gen job)))"

text \<open>A producer that reaches nothing but the variable store, as the producer of a file.\<close>

definition on_store :: "('g, 's) send \<Rightarrow> ('g, ('h, 's) Renderer) send" where
  "on_store send g v r =
     (case send g v (variables r) of (res, g', s') \<Rightarrow> (res, g', r\<lparr>variables := s'\<rparr>))"

section \<open>What run does with the yielded blocks, in the specification's words\<close>

text \<open>
  The specification of a job's two modes. In a definition or resource file every
  variable definition that the block holds is registered with the store, in order. In a
  variable-value file (the output name ends in \<open>.tfvars.json\<close>) the block is a flat
  mapping of variable names to values: when the store is waiting for this file, each
  value is accepted into the store as a value from this file's source, in order, with
  no change of a settled value allowed; when it is not, the store is left alone.
  \<open>classified\<close> is the store after the block, and \<open>None\<close> when an exception is raised
  (the helper or the store raises, or the block of a file that is waited for is no
  mapping).
\<close>

definition classified ::
  "('v, 's) externals \<Rightarrow> 'g RenderJob \<Rightarrow> pyval \<Rightarrow> 's \<Rightarrow> 's option" where
  "classified X job block s =
     (if endswith (job_output_name job) ''.tfvars.json'' then
        (if tfvars_waiting_for X s (job_output_name job) then
           (case block of
              PDict pairs \<Rightarrow>
                (case add_all X
                        (map (\<lambda>(name, value). VariableValue X name value (job_path_name job))
                           pairs)
                        False s of
                   (None, s') \<Rightarrow> Some s'
                 | (Some e, s') \<Rightarrow> None)
            | _ \<Rightarrow> None)
         else Some s)
      else
        (case get_variables_from_block X block (job_path_name job) of
           (vars, Some e) \<Rightarrow> None
         | (vars, None) \<Rightarrow>
             (case add_all X vars True s of
                (None, s') \<Rightarrow> Some s'
              | (Some e, s') \<Rightarrow> None)))"

text \<open>The blocks are classified one after the other, each on the store the one before
  left.\<close>

fun classified_all ::
  "('v, 's) externals \<Rightarrow> 'g RenderJob \<Rightarrow> pyval list \<Rightarrow> 's \<Rightarrow> 's option" where
  "classified_all X job [] s = Some s"
| "classified_all X job (block # rest) s =
     (case classified X job block s of
        None \<Rightarrow> None
      | Some s' \<Rightarrow> classified_all X job rest s')"

text \<open>The mappings among the blocks of a job.\<close>

fun dicts_of :: "pyval list \<Rightarrow> dict list" where
  "dicts_of [] = []"
| "dicts_of (PDict d # rest) = d # dicts_of rest"
| "dicts_of (v # rest) = dicts_of rest"

section \<open>Examples: the collections of the tests\<close>

text \<open>
  Modelled from the spec: a variable store and the helpers \<open>get_variables_from_block\<close>
  and \<open>get_outputs_from_block\<close> (\<open>variables.py\<close> and \<open>parser.py\<close> are not among the
  sources), in the simplest form that the specification describes. A block whose
  top-level key is \<open>variable\<close> defines variables, each with an optional default; a block
  whose top-level key is \<open>output\<close> gives (name, value) pairs; the store holds the
  values by name and the names of the files created, a default fills a name that has no
  value, a value that may not change must not differ from the one present, and a tfvars
  file is waited for until it is created. They serve to run the model on the producers of
  \<open>tests/test_collections.py\<close>; no property of the code is derived from them.
\<close>

datatype example_var = Definition string "pyval option" | Value string pyval string

type_synonym example_store = "dict \<times> string list"

definition example_variables ::
  "pyval \<Rightarrow> string \<Rightarrow> example_var list \<times> py_error option" where
  "example_variables block source =
     (case block of
        PDict d \<Rightarrow>
          (case map_of d ''variable'' of
             Some (PDict vars) \<Rightarrow>
               (map (\<lambda>(name, body).
                      Definition name (case body of PDict b \<Rightarrow> map_of b ''default'' | _ \<Rightarrow> None))
                  vars, None)
           | _ \<Rightarrow> ([], None))
      | _ \<Rightarrow> ([], None))"

definition example_outputs :: "pyval \<Rightarrow> (string \<times> pyval) list \<times> py_error option" where
  "example_outputs block =
     (case block of
        PDict d \<Rightarrow>
          (case map_of d ''output'' of
             Some (PDict outs) \<Rightarrow>
               (map (\<lambda>(name, body).
                      (name, case body of PDict b \<Rightarrow> dict_get b ''value'' | _ \<Rightarrow> PNone))
                  outs, None)
           | _ \<Rightarrow> ([], None))
      | _ \<Rightarrow> ([], None))"

definition example_add ::
  "example_store \<Rightarrow> example_var \<Rightarrow> bool \<Rightarrow> py_error option \<times> example_store" where
  "example_add s var allow_change =
     (case var of
        Definition name None \<Rightarrow> (None, s)
      | Definition name (Some v) \<Rightarrow>
          (case map_of (fst s) name of
             None \<Rightarrow> (None, (dict_set name v (fst s), snd s))
           | Some old \<Rightarrow> (None, s))
      | Value name v source \<Rightarrow>
          (case map_of (fst s) name of
             None \<Rightarrow> (None, (dict_set name v (fst s), snd s))
           | Some old \<Rightarrow>
               if allow_change \<or> old = v then (None, (dict_set name v (fst s), snd s))
               else (Some (Raised ''conflicting variable value''), s)))"

definition example_externals :: "(example_var, example_store) externals" where
  "example_externals =
     \<lparr> get_variables_from_block = example_variables,
       get_outputs_from_block = example_outputs,
       VariableValue = Value,
       VariableStore = ([], []),
       store_add = example_add,
       store_contains = (\<lambda>s name. map_of (fst s) name \<noteq> None),
       tfvars_waiting_for = (\<lambda>s file. file \<notin> set (snd s)),
       file_created = (\<lambda>s file. (fst s, snd s @ [file])),
       builtin_str = (\<lambda>v. []) \<rparr>"

text \<open>
  The producer \<open>iam_user\<close> of the tests. The generator state is the number of the
  \<open>yield\<close> it stands at and its local variable \<open>user\<close>; a variable that has no value
  raises.
\<close>

definition iam_user :: "(nat \<times> pyval, example_store) send" where
  "iam_user g v s =
     (case g of (pc, user) \<Rightarrow>
        if pc = 0 then (Yielded (Block ''variable.name'' None), (1, user), s)
        else if pc = 1 then
          (Yielded (Block ''variable.path'' (Some [(''default'', PStr ''/'')])), (2, user), s)
        else if pc = 2 then
          (case (map_of (fst s) ''name'', map_of (fst s) ''path'') of
             (Some (PStr name), Some path) \<Rightarrow>
               (Yielded (Block (''resource.aws_iam_user.'' @ name)
                   (Some [(''name'', PStr name), (''path'', path)])), (3, user), s)
           | _ \<Rightarrow> (Raises (Raised ''VariableNotPopulated''), (6, user), s))
        else if pc = 3 then
          (case map_of (fst s) ''name'' of
             Some name \<Rightarrow> (Yielded (Block ''output.name'' (Some [(''value'', name)])), (4, v), s)
           | None \<Rightarrow> (Raises (Raised ''VariableNotPopulated''), (6, v), s))
        else if pc = 4 then
          (Yielded (Block ''output.resource'' (Some [(''value'', user)])), (5, user), s)
        else (StopIteration, (6, user), s))"

text \<open>The Collection that \<open>iam_user(name=...)\<close> builds, and the block it holds.\<close>

definition iam_user_block :: "string \<Rightarrow> pyval" where
  "iam_user_block name =
     PDict [(''resource'', PDict [(''aws_iam_user'', PDict [(name,
       PDict [(''name'', PStr name), (''path'', PStr ''/'')])])])]"

definition iam_user_collection :: "string \<Rightarrow> pyval" where
  "iam_user_collection name =
     PCollection [iam_user_block name]
       [(''name'', PStr name),
        (''resource'', PBlock (''resource.aws_iam_user.'' @ name)
           [(''name'', PStr name), (''path'', PStr ''/'')])]"

text \<open>A producer that yields a Collection, then a list that holds a Collection, then a
  Block.\<close>

definition users_and_group :: "(nat, example_store) send" where
  "users_and_group pc v s =
     (if pc = 0 then (Yielded (iam_user_collection ''peanut''), 1, s)
      else if pc = 1 then (Yielded (PList [iam_user_collection ''cornelius'']), 2, s)
      else if pc = 2 then
        (Yielded (Block ''resource.aws_iam_group.dogs'' (Some [(''name'', PStr ''dogs'')])), 3, s)
      else (StopIteration, 4, s))"

text \<open>A producer that yields one list of three Blocks: a variable, an output and a
  resource.\<close>

definition listed_blocks :: "(nat, example_store) send" where
  "listed_blocks pc v s =
     (if pc = 0 then
        (Yielded (PList [Block ''variable.x'' None,
                         Block ''output.o'' (Some [(''value'', PInt 1)]),
                         Block ''resource.a.b'' None]), 1, s)
      else (StopIteration, 2, s))"

text \<open>The producer of a file: it defines the variable \<open>path\<close> with a default, yields one
  resource and ends. It reaches nothing but the store.\<close>

definition group_file :: "(nat, example_store) send" where
  "group_file pc v s =
     (if pc = 0 then
        (Yielded (Block ''variable.path'' (Some [(''default'', PStr ''/'')])), 1, s)
      else if pc = 1 then
        (Yielded (Block ''resource.aws_iam_group.dogs'' (Some [(''name'', PStr ''dogs'')])), 2, s)
      else (StopIteration, 3, s))"

text \<open>The producer of a variable-value file: it yields one mapping and ends.\<close>

definition vars_file :: "(nat, example_store) send" where
  "vars_file pc v s =
     (if pc = 0 then (Yielded (PDict [(''user'', PStr ''peanut'')]), 1, s)
      else (StopIteration, 2, s))"

text \<open>A renderer for two such files, \<open>b.tf.py\<close> registered last, with an empty store.\<close>

definition two_files :: "(nat, example_store) Renderer" where
  "two_files =
     \<lparr>jobs = [RenderJob_init ''a.tf.py'' ''a.tf.json'' ''a.tf.json'' 0,
              RenderJob_init ''b.tf.py'' ''b.tf.json'' ''b.tf.json'' 0],
      done_jobs = [], variables = ([], [])\<rparr>"

section \<open>The flattening rule in the specification's words\<close>

text \<open>\<open>nested [s1, ..., sn] b\<close> is \<open>{s1: {s2: ... {sn: b}}}\<close>.\<close>

fun nested :: "string list \<Rightarrow> dict \<Rightarrow> dict" where
  "nested [] b = b"
| "nested (s # ss) b = [(s, PDict (nested ss b))]"

text \<open>The blocks of a Collection with every nested Collection replaced, in place, by its
  own blocks, to any depth.\<close>

fun leaves :: "pyval \<Rightarrow> pyval list" where
  "leaves (PCollection blocks outputs) = concat (map leaves blocks)"
| "leaves v = [v]"

section \<open>Variable blocks and output blocks, in the specification's words\<close>

text \<open>
  A variable block is a block whose top-level key is \<open>variable\<close>, an output block one
  whose top-level key is \<open>output\<close>: a mapping that has the key, or a Block that flattens
  to such a mapping. This is a property of the block itself, whatever \<open>collect\<close> makes of
  it. A value is \<open>clean\<close> when none of the blocks it iterates to is a variable block or
  an output block.
\<close>

fun variable_block :: "pyval \<Rightarrow> bool" where
  "variable_block (PDict d) = (map_of d ''variable'' \<noteq> None)"
| "variable_block (PBlock path body) = (map_of (Block_iter path body) ''variable'' \<noteq> None)"
| "variable_block v = False"

fun output_block :: "pyval \<Rightarrow> bool" where
  "output_block (PDict d) = (map_of d ''output'' \<noteq> None)"
| "output_block (PBlock path body) = (map_of (Block_iter path body) ''output'' \<noteq> None)"
| "output_block v = False"

definition clean :: "pyval \<Rightarrow> bool" where
  "clean c = list_all (\<lambda>b. \<not> variable_block b \<and> \<not> output_block b) (leaves c)"

section \<open>Properties of Block and Interpolated\<close>

lemma split_from_nonempty: "split_from c cur s \<noteq> []"
  by (induction s arbitrary: cur) auto

lemma split_nonempty: "split c s \<noteq> []"
  by (simp add: split_def split_from_nonempty)

lemma split_from_no_sep: "c \<notin> set s \<Longrightarrow> split_from c cur s = [rev cur @ s]"
  by (induction s arbitrary: cur) auto

lemma split_no_sep: "c \<notin> set s \<Longrightarrow> split c s = [s]"
  by (simp add: split_def split_from_no_sep)

lemma split_from_sep: "c \<in> set s \<Longrightarrow> 2 \<le> length (split_from c cur s)"
proof (induction s arbitrary: cur)
  case Nil
  then show ?case by simp
next
  case (Cons x xs)
  show ?case
  proof (cases "x = c")
    case True
    have "1 \<le> length (split_from c [] xs)"
      using split_from_nonempty [of c "[]" xs] by (cases "split_from c [] xs") auto
    with True show ?thesis by simp
  next
    case False
    with Cons show ?thesis by simp
  qed
qed

lemma split_sep: "c \<in> set s \<Longrightarrow> 2 \<le> length (split c s)"
  by (simp add: split_def split_from_sep)

lemma dict_update_Nil: "distinct (map fst b) \<Longrightarrow> dict_update [] b = b"
proof -
  have step: "\<And>k v d. k \<notin> fst ` set d \<Longrightarrow> dict_set k v d = d @ [(k, v)]"
  proof -
    fix k v and d :: dict
    show "k \<notin> fst ` set d \<Longrightarrow> dict_set k v d = d @ [(k, v)]"
      by (induction d) auto
  qed
  have gen: "\<And>d. distinct (map fst (d @ b)) \<Longrightarrow>
      foldl (\<lambda>acc (k, v). dict_set k v acc) d b = d @ b"
  proof (induction b)
    case Nil
    then show ?case by simp
  next
    case (Cons p b)
    obtain k v where p: "p = (k, v)" by (cases p)
    from Cons.prems p have "k \<notin> fst ` set d" by auto
    then have "dict_set k v d = d @ [(k, v)]" by (rule step)
    moreover from Cons.prems p have "distinct (map fst ((d @ [(k, v)]) @ b))" by simp
    ultimately show ?case using Cons.IH [of "d @ [(k, v)]"] p by simp
  qed
  assume "distinct (map fst b)"
  then show ?thesis using gen [of "[]"] by (simp add: dict_update_def)
qed

lemma at_cursor_nested: "at_cursor ks f (nested ks inner) = nested ks (f inner)"
  by (induction ks) auto

lemma nested_append: "nested (ks @ [k]) b = nested ks [(k, PDict b)]"
  by (induction ks) auto

lemma foldl_iter_step:
  "foldl iter_step (nested pre [], pre) parts = (nested (pre @ parts) [], pre @ parts)"
proof (induction parts arbitrary: pre)
  case Nil
  then show ?case by simp
next
  case (Cons p parts)
  have "iter_step (nested pre [], pre) p = (nested (pre @ [p]) [], pre @ [p])"
    by (simp add: iter_step_def at_cursor_nested nested_append)
  then show ?case using Cons.IH [of "pre @ [p]"] by simp
qed

lemma Block_iter_dotted:
  assumes "CHR ''.'' \<in> set path" and "wf_dict body"
  shows "Block_iter path body = nested (split CHR ''.'' path) body"
proof -
  have "foldl iter_step ([], []) (split CHR ''.'' path)
      = (nested (split CHR ''.'' path) [], split CHR ''.'' path)"
    using foldl_iter_step [of "[]" "split CHR ''.'' path"] by simp
  with assms show ?thesis
    by (simp add: Block_iter_def at_cursor_nested dict_update_Nil wf_dict_def)
qed

lemma Block_iter_plain:
  assumes "CHR ''.'' \<notin> set path"
  shows "Block_iter path body = [(path, PDict body)]"
  using assms by (simp add: Block_iter_def)

lemma Block_iter_shape: "Block_iter path body = nested (split CHR ''.'' path)
    (if CHR ''.'' \<in> set path then dict_update [] body else body)"
proof (cases "CHR ''.'' \<in> set path")
  case True
  have "foldl iter_step ([], []) (split CHR ''.'' path)
      = (nested (split CHR ''.'' path) [], split CHR ''.'' path)"
    using foldl_iter_step [of "[]" "split CHR ''.'' path"] by simp
  with True show ?thesis
    by (simp add: Block_iter_def at_cursor_nested)
next
  case False
  then show ?thesis by (simp add: Block_iter_def split_no_sep)
qed

lemma dict_of_pairs_single: "dict_of_pairs [(k, v)] = [(k, v)]"
  by (simp add: dict_of_pairs_def dict_update_def)

lemma dict_of_pairs_Block_iter: "dict_of_pairs (Block_iter path body) = Block_iter path body"
proof -
  obtain p ps where "split CHR ''.'' path = p # ps"
    using split_nonempty [of "CHR ''.''" path] by (cases "split CHR ''.'' path") auto
  then show ?thesis by (simp add: Block_iter_shape dict_of_pairs_single)
qed

text \<open>
  C3. For every dotted path \<open>s1.s2...sn\<close> and every body \<open>b\<close>, iterating the Block gives
  the mapping nested \<open>n\<close> levels deep, \<open>{s1: {s2: ... {sn: b}}}\<close>, under the literal
  segment names; a path of one segment gives \<open>{s1: b}\<close> and nothing more. Flattening is a
  total function of the path and the body: it raises nothing and changes nothing. The
  same mapping is what \<open>unwrap_yielded\<close> makes of the Block.
\<close>

theorem Block_flattening:
  assumes "wf_dict b"
  shows "Block_iter p b = nested (split CHR ''.'' p) b
       \<and> unwrap_yielded (Block p (Some b)) = Inr [PDict (nested (split CHR ''.'' p) b)]
       \<and> 1 \<le> length (split CHR ''.'' p)
       \<and> (length (split CHR ''.'' p) = 1 \<longleftrightarrow> CHR ''.'' \<notin> set p)
       \<and> (if CHR ''.'' \<in> set p then True else Block_iter p b = [(p, PDict b)])"
proof -
  have iter: "Block_iter p b = nested (split CHR ''.'' p) b"
    using assms by (simp add: Block_iter_shape dict_update_Nil wf_dict_def)
  have len: "1 \<le> length (split CHR ''.'' p)"
    using split_nonempty [of "CHR ''.''" p] by (cases "split CHR ''.'' p") auto
  have one: "length (split CHR ''.'' p) = 1 \<longleftrightarrow> CHR ''.'' \<notin> set p"
    using split_sep [of "CHR ''.''" p] split_no_sep [of "CHR ''.''" p] by auto
  have unw: "unwrap_yielded (Block p (Some b)) = Inr [PDict (nested (split CHR ''.'' p) b)]"
    using iter dict_of_pairs_Block_iter [of p b] by (simp add: Block_def)
  have plain: "if CHR ''.'' \<in> set p then True else Block_iter p b = [(p, PDict b)]"
    by (simp add: Block_iter_plain)
  show ?thesis by (intro conjI iter unw len one plain)
qed

theorem Block_flattening_witness:
  "wf_dict [(''name'', PStr ''peanut''), (''path'', PStr ''/'')]
   \<and> Block_iter ''resource.aws_iam_user.peanut''
        [(''name'', PStr ''peanut''), (''path'', PStr ''/'')]
     = [(''resource'', PDict [(''aws_iam_user'', PDict [(''peanut'',
          PDict [(''name'', PStr ''peanut''), (''path'', PStr ''/'')])])])]
   \<and> Block_iter ''locals'' [(''name'', PStr ''peanut''), (''path'', PStr ''/'')]
     = [(''locals'', PDict [(''name'', PStr ''peanut''), (''path'', PStr ''/'')])]"
proof -
  have wf: "wf_dict [(''name'', PStr ''peanut''), (''path'', PStr ''/'')]"
    by (simp add: wf_dict_def)
  have s3: "split CHR ''.'' ''resource.aws_iam_user.peanut''
      = [''resource'', ''aws_iam_user'', ''peanut'']"
    by (simp add: split_def)
  have s1: "split CHR ''.'' ''locals'' = [''locals'']"
    by (simp add: split_def)
  show ?thesis
    using wf Block_flattening [OF wf, of "''resource.aws_iam_user.peanut''"]
      Block_flattening [OF wf, of "''locals''"]
    by (simp add: s3 s1)
qed

subsection \<open>References\<close>

lemma split_from_prefix:
  "c \<notin> set a \<Longrightarrow> split_from c cur (a @ c # b) = (rev cur @ a) # split_from c [] b"
  by (induction a arbitrary: cur) auto

lemma split_prefix: "c \<notin> set a \<Longrightarrow> split c (a @ c # b) = a # split c b"
  using split_from_prefix [of c a "[]" b] by (simp add: split_def)

lemma join_Cons: "ps \<noteq> [] \<Longrightarrow> join sep (p # ps) = p @ sep @ join sep ps"
  by (cases ps) auto

lemma join_snoc: "ps \<noteq> [] \<Longrightarrow> join sep (ps @ [n]) = join sep ps @ sep @ n"
proof (induction ps)
  case Nil
  then show ?case by simp
next
  case (Cons p ps)
  show ?case
  proof (cases "ps = []")
    case True
    then show ?thesis by simp
  next
    case False
    with Cons.IH show ?thesis by (simp add: join_Cons)
  qed
qed

lemma join_split_from: "join [c] (split_from c cur s) = rev cur @ s"
proof (induction s arbitrary: cur)
  case Nil
  then show ?case by simp
next
  case (Cons x xs)
  show ?case
  proof (cases "x = c")
    case True
    then show ?thesis
      using Cons.IH [of "[]"] by (simp add: join_Cons split_from_nonempty)
  next
    case False
    then show ?thesis using Cons.IH [of "x # cur"] by simp
  qed
qed

lemma join_split: "join [c] (split c s) = s"
  by (simp add: split_def join_split_from)

lemma split_resource: "split CHR ''.'' (''resource.'' @ rest) = ''resource'' # split CHR ''.'' rest"
  using split_prefix [of "CHR ''.''" "''resource''" rest] by simp

lemma split_provider:
  "split CHR ''.'' (''provider.'' @ t) = ''provider'' # split CHR ''.'' t"
  using split_prefix [of "CHR ''.''" "''provider''" t] by simp

text \<open>
  C5. Attribute \<open>arn\<close> of the Block \<open>resource.aws_iam_user.peanut\<close> is the Reference
  Expression with textual form \<open>${aws_iam_user.peanut.arn}\<close>, and it compares equal to
  that plain string. For every path \<open>resource.rest\<close> and every attribute name the
  leading segment is dropped and the name is appended as a new segment.
\<close>

theorem resource_reference:
  "Block_getattr text_of (''resource.'' @ rest) body name = Inr (PInterp (rest @ ''.'' @ name))
   \<and> Block_getattr text_of ''resource.aws_iam_user.peanut'' body ''arn''
       = Inr (PInterp ''aws_iam_user.peanut.arn'')
   \<and> Interpolated_str ''aws_iam_user.peanut.arn'' = ''${aws_iam_user.peanut.arn}''
   \<and> textual_form (PInterp ''aws_iam_user.peanut.arn'') = Some ''${aws_iam_user.peanut.arn}''
   \<and> Interpolated_eq ''aws_iam_user.peanut.arn'' (PStr ''${aws_iam_user.peanut.arn}'')"
proof -
  have gen: "\<And>r n. Block_getattr text_of (''resource.'' @ r) body n
      = Inr (PInterp (r @ ''.'' @ n))"
  proof -
    fix r n
    have "join ''.'' (split CHR ''.'' r @ [n]) = r @ ''.'' @ n"
      using join_snoc [OF split_nonempty, of "''.''" "CHR ''.''" r n]
        join_split [of "CHR ''.''" r] by simp
    then show "Block_getattr text_of (''resource.'' @ r) body n
        = Inr (PInterp (r @ ''.'' @ n))"
      unfolding Block_getattr_def split_resource by simp
  qed
  have inst: "Block_getattr text_of ''resource.aws_iam_user.peanut'' body ''arn''
      = Inr (PInterp ''aws_iam_user.peanut.arn'')"
    using gen [of "''aws_iam_user.peanut''" "''arn''"] by simp
  have str: "Interpolated_str ''aws_iam_user.peanut.arn'' = ''${aws_iam_user.peanut.arn}''"
    by (simp add: Interpolated_str_def)
  have form: "textual_form (PInterp ''aws_iam_user.peanut.arn'')
      = Some ''${aws_iam_user.peanut.arn}''"
    by (simp add: Interpolated_str_def)
  have equal: "Interpolated_eq ''aws_iam_user.peanut.arn'' (PStr ''${aws_iam_user.peanut.arn}'')"
    by (simp add: Interpolated_str_def)
  show ?thesis by (intro conjI gen inst str form equal)
qed

text \<open>
  C1, as the claim states it, fails: for the Block \<open>provider.aws\<close> with \<open>alias\<close> mapped to
  \<open>east\<close> the attribute is the plain string \<open>aws.east\<close>, whose textual form has no
  interpolation wrapper, and not a Reference Expression.
\<close>

theorem provider_reference_counterexample:
  "Block_getattr (\<lambda>v. []) ''provider.aws'' [(''alias'', PStr ''east'')] ''region''
     = Inr (PStr ''aws.east'')
   \<and> textual_form (PStr ''aws.east'') \<noteq> Some ''${aws.east}''
   \<and> PStr ''aws.east'' \<noteq> PInterp ''aws.east''"
proof -
  have "split CHR ''.'' ''provider.aws'' = [''provider'', ''aws'']"
    by (simp add: split_def)
  then show ?thesis
    by (simp add: Block_getattr_def dict_get_def)
qed

text \<open>
  C1, amended. For a provider Block \<open>provider.t\<close> (\<open>t\<close> a type name, without a dot),
  whatever attribute name is requested: with \<open>alias\<close> mapped to a non-empty string \<open>a\<close>
  the attribute is the plain string \<open>t.a\<close> (for \<open>provider.aws\<close> and \<open>east\<close>: \<open>aws.east\<close>);
  with no \<open>alias\<close> in the body it is the plain string \<open>t\<close>. The requested name is never
  appended, and the result is a string, not a Reference Expression: its textual form is
  the string itself.
\<close>

theorem provider_reference:
  assumes "CHR ''.'' \<notin> set t"
  shows "(map_of body ''alias'' = Some (PStr a) \<and> a \<noteq> [] \<longrightarrow>
            Block_getattr text_of (''provider.'' @ t) body name = Inr (PStr (t @ ''.'' @ a))
            \<and> textual_form (PStr (t @ ''.'' @ a)) = Some (t @ ''.'' @ a))
       \<and> (map_of body ''alias'' = None \<longrightarrow>
            Block_getattr text_of (''provider.'' @ t) body name = Inr (PStr t)
            \<and> textual_form (PStr t) = Some t)"
proof -
  have parts: "split CHR ''.'' (''provider.'' @ t) = [''provider'', t]"
    by (simp only: split_provider split_no_sep [OF assms])
  show ?thesis
    unfolding Block_getattr_def parts by (simp add: dict_get_def)
qed

theorem provider_reference_witness:
  "CHR ''.'' \<notin> set ''aws''
   \<and> map_of [(''alias'', PStr ''east'')] ''alias'' = Some (PStr ''east'') \<and> ''east'' \<noteq> []
   \<and> Block_getattr (\<lambda>v. []) ''provider.aws'' [(''alias'', PStr ''east'')] ''region''
       = Inr (PStr ''aws.east'')
   \<and> map_of [(''region'', PStr ''us-east-1'')] ''alias'' = None
   \<and> Block_getattr (\<lambda>v. []) ''provider.aws'' [(''region'', PStr ''us-east-1'')] ''region''
       = Inr (PStr ''aws'')"
proof -
  have t: "CHR ''.'' \<notin> set ''aws''" by simp
  show ?thesis
    using t
      provider_reference [OF t, of "[(''alias'', PStr ''east'')]" "''east''" "\<lambda>v. []" "''region''"]
      provider_reference [OF t, of "[(''region'', PStr ''us-east-1'')]" "''east''" "\<lambda>v. []" "''region''"]
    by simp
qed

subsection \<open>Unwrapping\<close>

lemma Collection_iter_leaves: "Collection_iter blocks = concat (map leaves blocks)"
  by (induction blocks rule: Collection_iter.induct) auto

lemma Collection_iter_no_Collection: "list_all (\<lambda>x. \<not> is_Collection x) (Collection_iter blocks)"
  by (induction blocks rule: Collection_iter.induct) auto

text \<open>
  C2, as the claim states it, fails: the items of a yielded list are passed on as they
  are. A Block inside a list comes out as the Block object, not as the flattened mapping
  that unwrapping the Block itself gives.
\<close>

theorem unwrap_yielded_counterexample:
  "unwrap_yielded (PList [Block ''a'' None]) = Inr [Block ''a'' None]
   \<and> \<not> is_dict (Block ''a'' None)
   \<and> unwrap_yielded (Block ''a'' None) = Inr [PDict [(''a'', PDict [])]]"
  by (simp add: Block_def Block_iter_def dict_of_pairs_def dict_update_def)

text \<open>
  C2, amended. A Block gives exactly one item, its flattened mapping; a plain mapping is
  passed through unchanged; any other value is iterated and its items are passed on as
  they are, in order, with no further unwrapping: a list gives its elements, a Collection
  gives what its own iteration gives, which is its stored blocks with every nested
  Collection replaced in place by its blocks, to any depth.
\<close>

theorem unwrap_yielded_items:
  "unwrap_yielded (PBlock path body) = Inr [PDict (Block_iter path body)]
   \<and> unwrap_yielded (PDict d) = Inr [PDict d]
   \<and> unwrap_yielded (PList xs) = Inr xs
   \<and> unwrap_yielded (PCollection blocks outputs) = Inr (concat (map leaves blocks))"
  by (simp add: dict_of_pairs_Block_iter Collection_iter_leaves)

section \<open>Properties of collect and Collection\<close>

lemma dict_update_append: "dict_update d (xs @ ys) = dict_update (dict_update d xs) ys"
  by (simp add: dict_update_def)

lemma collect_block_result:
  assumes "collect_block X n block (s, blocks, outputs) = Inr (s', blocks', outputs')"
  shows "blocks' = blocks @ filter (ordinary X n) [block]
       \<and> outputs' = dict_update outputs (outputs_of X [block])"
  using assms
  by (auto simp: collect_block_def ordinary_def outputs_of_def
      split: prod.splits option.splits if_splits)

lemma collect_blocks_result:
  "collect_blocks X n unwrapped (s, blocks, outputs) = Inr (s', blocks', outputs')
   \<Longrightarrow> blocks' = blocks @ filter (ordinary X n) unwrapped
       \<and> outputs' = dict_update outputs (outputs_of X unwrapped)"
proof (induction unwrapped arbitrary: s blocks outputs)
  case Nil
  then show ?case by (simp add: outputs_of_def dict_update_def)
next
  case (Cons b unwrapped)
  from Cons.prems obtain s1 b1 o1 where
    one: "collect_block X n b (s, blocks, outputs) = Inr (s1, b1, o1)"
    and rest: "collect_blocks X n unwrapped (s1, b1, o1) = Inr (s', blocks', outputs')"
    by (auto split: sum.splits)
  from collect_block_result [OF one] Cons.IH [OF rest]
  show ?case by (simp add: outputs_of_def dict_update_append)
qed

text \<open>The loop, one round at a time.\<close>

lemma collect_loop_stop:
  "send g y (fst st) = (StopIteration, g', s')
   \<Longrightarrow> collect_loop X send n g y st = Some (Inr (g', s', snd st))"
  by (subst collect_loop.simps) simp

lemma collect_loop_yield:
  "send g y (fst st) = (Yielded v, g', s') \<Longrightarrow> unwrap_yielded v = Inr unwrapped
   \<Longrightarrow> collect_blocks X n unwrapped (s', snd st) = Inr st'
   \<Longrightarrow> collect_loop X send n g y st = collect_loop X send n g' v st'"
  by (subst collect_loop.simps) simp

text \<open>
  What a run that ends leaves behind: the producer was sent the initial value and then
  each value it yielded; the blocks are the ordinary ones among everything unwrapped, in
  order; the outputs are all the outputs given, set in order.
\<close>

lemma collect_loop_trace:
  assumes "collect_loop X rsend n gl y st = Some res"
    and "rsend = recording send"
    and "res = Inr (gl', s', blocks', outputs')"
  shows "\<exists>ys. snd (snd gl') = snd (snd gl) @ ys
          \<and> fst (snd gl') = fst (snd gl) @ y # ys
          \<and> blocks' = fst (snd st) @ filter (ordinary X n) (concat (map items_of ys))
          \<and> outputs' = dict_update (snd (snd st)) (outputs_of X (concat (map items_of ys)))"
  using assms(2,3)
proof (induction X rsend n gl y st res arbitrary: gl' s' blocks' outputs'
    rule: collect_loop.raw_induct)
  case (1 loop X rsend n gl y st res)
  note IH = "1.IH" and eq = "1.hyps" and rs = "1.prems"(1) and res = "1.prems"(2)
  obtain g sent ylog where gl: "gl = (g, sent, ylog)" by (cases gl)
  obtain r g1 w1 where snd: "send g y (fst st) = (r, g1, w1)" by (cases "send g y (fst st)")
  obtain s blocks outputs where st: "st = (s, blocks, outputs)" by (cases st)
  show ?case
  proof (cases r)
    case StopIteration
    with eq rs res gl snd st show ?thesis
      by (auto simp: recording_def outputs_of_def dict_update_def)
  next
    case (Raises e)
    with eq rs res gl snd show ?thesis by (auto simp: recording_def)
  next
    case (Yielded v)
    with eq rs res gl snd st obtain unwrapped st1 where
      unwrapped: "unwrap_yielded v = Inr unwrapped"
      and blocks: "collect_blocks X n unwrapped (w1, blocks, outputs) = Inr st1"
      and rec: "loop X rsend n (g1, sent @ [y], ylog @ [v]) v st1 = Some res"
      by (auto simp: recording_def split: sum.splits)
    obtain s1 b1 o1 where st1: "st1 = (s1, b1, o1)" by (cases st1)
    from IH [OF rec rs res] obtain ys where
      ys: "snd (snd gl') = (ylog @ [v]) @ ys" "fst (snd gl') = (sent @ [y]) @ v # ys"
        "blocks' = b1 @ filter (ordinary X n) (concat (map items_of ys))"
        "outputs' = dict_update o1 (outputs_of X (concat (map items_of ys)))"
      using st1 by auto
    from collect_blocks_result [OF blocks [unfolded st1]]
    have b1: "b1 = blocks @ filter (ordinary X n) unwrapped"
      and o1: "o1 = dict_update outputs (outputs_of X unwrapped)" by auto
    have iv: "items_of v = unwrapped" using unwrapped by (simp add: items_of_def)
    have "snd (snd gl') = snd (snd gl) @ (v # ys)" using ys gl by simp
    moreover have "fst (snd gl') = fst (snd gl) @ y # (v # ys)" using ys gl by simp
    moreover have "blocks' = fst (snd st) @ filter (ordinary X n) (concat (map items_of (v # ys)))"
      using ys b1 st iv by simp
    moreover have "outputs' = dict_update (snd (snd st)) (outputs_of X (concat (map items_of (v # ys))))"
      using ys o1 st iv by (simp add: outputs_of_def dict_update_append)
    ultimately show ?thesis by blast
  qed
qed (rule assms(1))

text \<open>Observation changes nothing: the observed run gives what the plain run gives.\<close>

lemma recording_forward:
  assumes "collect_loop X send n g y st = Some res"
  shows "\<exists>res'. collect_loop X (recording send) n (g, sent, ylog) y st = Some res'
           \<and> forget res' = res"
proof (induction X send n g y st res arbitrary: sent ylog rule: collect_loop.raw_induct)
  case (1 loop X send n g y st res)
  note IH = "1.IH" and eq = "1.hyps"
  obtain r g1 w1 where snd: "send g y (fst st) = (r, g1, w1)" by (cases "send g y (fst st)")
  show ?case
  proof (cases r)
    case StopIteration
    with eq snd show ?thesis
      by (subst collect_loop.simps) (auto simp: recording_def forget_def)
  next
    case (Raises e)
    with eq snd show ?thesis
      by (subst collect_loop.simps) (auto simp: recording_def forget_def)
  next
    case (Yielded v)
    show ?thesis
    proof (cases "unwrap_yielded v")
      case (Inl e)
      with Yielded eq snd show ?thesis
        by (subst collect_loop.simps) (auto simp: recording_def forget_def)
    next
      case (Inr unwrapped)
      show ?thesis
      proof (cases "collect_blocks X n unwrapped (w1, snd st)")
        case (Inl e)
        with Inr Yielded eq snd show ?thesis
          by (subst collect_loop.simps) (auto simp: recording_def forget_def)
      next
        case (Inr st1)
        with \<open>unwrap_yielded v = Inr unwrapped\<close> Yielded eq snd
        have "loop X send n g1 v st1 = Some res" by simp
        from IH [OF this, of "sent @ [y]" "ylog @ [v]"]
        obtain res' where
          "collect_loop X (recording send) n (g1, sent @ [y], ylog @ [v]) v st1 = Some res'"
          and "forget res' = res" by blast
        with Inr \<open>unwrap_yielded v = Inr unwrapped\<close> Yielded snd show ?thesis
          by (subst collect_loop.simps) (simp add: recording_def)
      qed
    qed
  qed
qed (rule assms)

lemma recording_backward:
  assumes "collect_loop X rsend n gl y st = Some res"
    and "rsend = recording send"
  shows "collect_loop X send n (fst gl) y st = Some (forget res)"
  using assms(2)
proof (induction X rsend n gl y st res rule: collect_loop.raw_induct)
  case (1 loop X rsend n gl y st res)
  note IH = "1.IH" and eq = "1.hyps" and rs = "1.prems"
  obtain g sent ylog where gl: "gl = (g, sent, ylog)" by (cases gl)
  obtain r g1 w1 where snd: "send g y (fst st) = (r, g1, w1)" by (cases "send g y (fst st)")
  show ?case
  proof (cases r)
    case StopIteration
    with eq rs gl snd show ?thesis
      by (subst collect_loop.simps) (auto simp: recording_def forget_def)
  next
    case (Raises e)
    with eq rs gl snd show ?thesis
      by (subst collect_loop.simps) (auto simp: recording_def forget_def)
  next
    case (Yielded v)
    show ?thesis
    proof (cases "unwrap_yielded v")
      case (Inl e)
      with Yielded eq rs gl snd show ?thesis
        by (subst collect_loop.simps) (auto simp: recording_def forget_def)
    next
      case (Inr unwrapped)
      show ?thesis
      proof (cases "collect_blocks X n unwrapped (w1, snd st)")
        case (Inl e)
        with Inr Yielded eq rs gl snd show ?thesis
          by (subst collect_loop.simps) (auto simp: recording_def forget_def)
      next
        case (Inr st1)
        with \<open>unwrap_yielded v = Inr unwrapped\<close> Yielded eq rs gl snd
        have "loop X rsend n (g1, sent @ [y], ylog @ [v]) v st1 = Some res"
          by (simp add: recording_def)
        from IH [OF this rs]
        have "collect_loop X send n g1 v st1 = Some (forget res)" by simp
        with Inr \<open>unwrap_yielded v = Inr unwrapped\<close> Yielded snd gl show ?thesis
          by (subst collect_loop.simps) simp
      qed
    qed
  qed
qed (rule assms(1))

lemma recording_transparent:
  "collect_loop X send n g y st
     = map_option forget (collect_loop X (recording send) n (g, sent, ylog) y st)"
proof (cases "collect_loop X send n g y st")
  case None
  show ?thesis
  proof (cases "collect_loop X (recording send) n (g, sent, ylog) y st")
    case None
    with \<open>collect_loop X send n g y st = None\<close> show ?thesis by simp
  next
    case (Some res')
    from recording_backward [OF Some refl] None show ?thesis by simp
  qed
next
  case (Some res)
  from recording_forward [OF Some, of sent ylog] Some show ?thesis by auto
qed

text \<open>A run from the start, as \<open>wrapped\<close> makes it.\<close>

lemma collect_run:
  assumes seed: "seed_store X kwargs = (None, s0)"
    and run: "collect_loop X (recording send) func_name (g, [], []) PNone (s0, [], [])
        = Some (Inr ((g', sent, ys), s', blocks, outputs))"
  shows "collect X send func_name g kwargs = Some (Inr (PCollection blocks outputs))"
    and "sent = PNone # ys"
    and "blocks = filter (ordinary X func_name) (concat (map items_of ys))"
    and "outputs = dict_update [] (outputs_of X (concat (map items_of ys)))"
proof -
  have "collect_loop X send func_name g PNone (s0, [], []) = Some (Inr (g', s', blocks, outputs))"
    using recording_transparent [of X send func_name g PNone "(s0, [], [])" "[]" "[]"] run
    by (simp add: forget_def)
  with seed show "collect X send func_name g kwargs = Some (Inr (PCollection blocks outputs))"
    by (simp add: collect_def)
  from collect_loop_trace [OF run refl refl]
  show "sent = PNone # ys"
    and "blocks = filter (ordinary X func_name) (concat (map items_of ys))"
    and "outputs = dict_update [] (outputs_of X (concat (map items_of ys)))"
    by auto
qed

lemma leaves_no_Collection: "list_all (\<lambda>x. \<not> is_Collection x) (leaves v)"
  by (induction v rule: leaves.induct) (auto simp: list_all_iff)

lemma leaves_not_Collection: "\<not> is_Collection v \<Longrightarrow> leaves v = [v]"
  by (cases v) auto

lemmas example_defs = recording_def Block_def Block_iter_def split_def iter_step_def
  dict_update_def dict_of_pairs_def collect_block_def example_externals_def
  example_variables_def example_outputs_def example_add_def dict_get_def
  iam_user_collection_def iam_user_block_def

text \<open>
  C4, as the claim states it, fails: the items of a yielded list are classified as they
  are. A variable Block and an output Block inside a list are not flattened, the helpers
  find no variable and no output in them, and the Collection stores them and iterates
  them, with no output recorded.
\<close>

theorem collect_iteration_counterexample:
  "collect example_externals listed_blocks ''listed_blocks'' 0 []
     = Some (Inr (PCollection
         [Block ''variable.x'' None,
          Block ''output.o'' (Some [(''value'', PInt 1)]),
          Block ''resource.a.b'' None] []))
   \<and> Collection_iter
         [Block ''variable.x'' None,
          Block ''output.o'' (Some [(''value'', PInt 1)]),
          Block ''resource.a.b'' None]
       = [Block ''variable.x'' None,
          Block ''output.o'' (Some [(''value'', PInt 1)]),
          Block ''resource.a.b'' None]
   \<and> variable_block (Block ''variable.x'' None)
   \<and> output_block (Block ''output.o'' (Some [(''value'', PInt 1)]))"
proof -
  have "collect_loop example_externals listed_blocks ''listed_blocks'' 0 PNone (([], []), [], [])
      = Some (Inr (2, ([], []),
          [Block ''variable.x'' None,
           Block ''output.o'' (Some [(''value'', PInt 1)]),
           Block ''resource.a.b'' None], []))"
    by (simp add: collect_loop_yield collect_loop_stop listed_blocks_def example_defs)
  then have built: "collect example_externals listed_blocks ''listed_blocks'' 0 []
      = Some (Inr (PCollection
          [Block ''variable.x'' None,
           Block ''output.o'' (Some [(''value'', PInt 1)]),
           Block ''resource.a.b'' None] []))"
    by (simp add: collect_def seed_store_def example_externals_def)
  show ?thesis
    using built by (simp add: example_defs)
qed

text \<open>
  C4, amended. Let a call of a collect factory return a Collection, and let \<open>ys\<close> be
  what its producer yielded, in order. The stored blocks are those items, among
  everything the yielded values unwrap to, for which the two helpers yielded nothing,
  in the order of emission. Iterating the Collection goes through them in that order and
  replaces every stored Collection by its own blocks, recursively, and no item of the
  iteration is a Collection object. No item of the iteration is a variable block or an
  output block either (the Collection is clean), provided the helpers yield a variable or
  an output for every unwrapped item that is a variable block or an output block, and
  every Collection that arrived inside a yielded sequence is clean itself, as a
  Collection built in this way is. The producer above falls outside the proviso: the
  helpers find nothing in a Block that sits, unflattened, inside a list.
\<close>

theorem collect_iteration:
  assumes seed: "seed_store X kwargs = (None, s0)"
    and run: "collect_loop X (recording send) func_name (g, [], []) PNone (s0, [], [])
        = Some (Inr ((g', sent, ys), s', blocks, outputs))"
  shows "collect X send func_name g kwargs = Some (Inr (PCollection blocks outputs))
       \<and> blocks = filter (ordinary X func_name) (concat (map items_of ys))
       \<and> Collection_iter blocks = concat (map leaves blocks)
       \<and> list_all (\<lambda>b. \<not> is_Collection b) (Collection_iter blocks)
       \<and> (list_all (\<lambda>b. variable_block b \<or> output_block b \<longrightarrow> \<not> ordinary X func_name b)
              (filter (\<lambda>b. \<not> is_Collection b) (concat (map items_of ys)))
            \<and> list_all clean (filter is_Collection (concat (map items_of ys)))
          \<longrightarrow> list_all (\<lambda>b. \<not> variable_block b \<and> \<not> output_block b) (Collection_iter blocks)
              \<and> clean (PCollection blocks outputs))"
proof -
  note facts = collect_run [OF seed run]
  have no_coll: "list_all (\<lambda>b. \<not> is_Collection b) (Collection_iter blocks)"
    by (rule Collection_iter_no_Collection)
  have cleaned: "list_all (\<lambda>b. variable_block b \<or> output_block b \<longrightarrow> \<not> ordinary X func_name b)
        (filter (\<lambda>b. \<not> is_Collection b) (concat (map items_of ys)))
      \<and> list_all clean (filter is_Collection (concat (map items_of ys)))
    \<longrightarrow> list_all (\<lambda>b. \<not> variable_block b \<and> \<not> output_block b) (Collection_iter blocks)
        \<and> clean (PCollection blocks outputs)"
  proof
    assume a: "list_all (\<lambda>b. variable_block b \<or> output_block b \<longrightarrow> \<not> ordinary X func_name b)
        (filter (\<lambda>b. \<not> is_Collection b) (concat (map items_of ys)))
      \<and> list_all clean (filter is_Collection (concat (map items_of ys)))"
    have each: "\<And>b x. b \<in> set blocks \<Longrightarrow> x \<in> set (leaves b)
        \<Longrightarrow> \<not> variable_block x \<and> \<not> output_block x"
    proof -
      fix b x
      assume b: "b \<in> set blocks" and x: "x \<in> set (leaves b)"
      from b facts(3) have item: "b \<in> set (concat (map items_of ys))"
        and ord: "ordinary X func_name b" by auto
      show "\<not> variable_block x \<and> \<not> output_block x"
      proof (cases "is_Collection b")
        case True
        with item a have "clean b" by (auto simp: list_all_iff)
        with x show ?thesis by (auto simp: clean_def list_all_iff)
      next
        case False
        with x have "x = b" by (simp add: leaves_not_Collection)
        moreover from False item a ord
        have "\<not> (variable_block b \<or> output_block b)" by (auto simp: list_all_iff)
        ultimately show ?thesis by simp
      qed
    qed
    then have "list_all (\<lambda>b. \<not> variable_block b \<and> \<not> output_block b) (concat (map leaves blocks))"
      by (auto simp: list_all_iff)
    then show "list_all (\<lambda>b. \<not> variable_block b \<and> \<not> output_block b) (Collection_iter blocks)
        \<and> clean (PCollection blocks outputs)"
      by (simp add: Collection_iter_leaves clean_def)
  qed
  show ?thesis
    by (intro conjI facts(1) facts(3) Collection_iter_leaves no_coll cleaned)
qed

lemma users_and_group_run:
  "collect_loop example_externals (recording users_and_group) ''users_and_group''
     (0, [], []) PNone (([], []), [], [])
   = Some (Inr ((4,
        [PNone, iam_user_collection ''peanut'', PList [iam_user_collection ''cornelius''],
         Block ''resource.aws_iam_group.dogs'' (Some [(''name'', PStr ''dogs'')])],
        [iam_user_collection ''peanut'', PList [iam_user_collection ''cornelius''],
         Block ''resource.aws_iam_group.dogs'' (Some [(''name'', PStr ''dogs'')])]),
       ([], []),
       [iam_user_block ''peanut'', iam_user_collection ''cornelius'',
        PDict [(''resource'', PDict [(''aws_iam_group'', PDict [(''dogs'',
          PDict [(''name'', PStr ''dogs'')])])])]],
       []))"
  by (simp add: collect_loop_yield collect_loop_stop users_and_group_def example_defs)

text \<open>The run of \<open>iam_user(name="cornelius")\<close>, which builds the Collection that
  \<open>users_and_group\<close> hands over inside a list.\<close>

lemma cornelius_run:
  "collect_loop example_externals (recording iam_user) ''iam_user'' ((0, PNone), [], []) PNone
     (([(''name'', PStr ''cornelius'')], []), [], [])
   = Some (Inr (((6, Block ''resource.aws_iam_user.cornelius''
                      (Some [(''name'', PStr ''cornelius''), (''path'', PStr ''/'')])),
        [PNone,
         Block ''variable.name'' None,
         Block ''variable.path'' (Some [(''default'', PStr ''/'')]),
         Block ''resource.aws_iam_user.cornelius''
           (Some [(''name'', PStr ''cornelius''), (''path'', PStr ''/'')]),
         Block ''output.name'' (Some [(''value'', PStr ''cornelius'')]),
         Block ''output.resource'' (Some [(''value'', Block ''resource.aws_iam_user.cornelius''
           (Some [(''name'', PStr ''cornelius''), (''path'', PStr ''/'')]))])],
        [Block ''variable.name'' None,
         Block ''variable.path'' (Some [(''default'', PStr ''/'')]),
         Block ''resource.aws_iam_user.cornelius''
           (Some [(''name'', PStr ''cornelius''), (''path'', PStr ''/'')]),
         Block ''output.name'' (Some [(''value'', PStr ''cornelius'')]),
         Block ''output.resource'' (Some [(''value'', Block ''resource.aws_iam_user.cornelius''
           (Some [(''name'', PStr ''cornelius''), (''path'', PStr ''/'')]))])]),
       ([(''name'', PStr ''cornelius''), (''path'', PStr ''/'')], []),
       [iam_user_block ''cornelius''],
       [(''name'', PStr ''cornelius''),
        (''resource'', Block ''resource.aws_iam_user.cornelius''
           (Some [(''name'', PStr ''cornelius''), (''path'', PStr ''/'')]))]))"
  by (simp add: collect_loop_yield collect_loop_stop iam_user_def example_defs)

lemma cornelius_seed:
  "seed_store example_externals [(''name'', PStr ''cornelius'')]
     = (None, ([(''name'', PStr ''cornelius'')], []))"
  by (simp add: seed_store_def example_externals_def example_add_def)

theorem collect_iteration_witness:
  "seed_store example_externals [(''name'', PStr ''cornelius'')]
     = (None, ([(''name'', PStr ''cornelius'')], []))
   \<and> collect example_externals iam_user ''iam_user'' (0, PNone) [(''name'', PStr ''cornelius'')]
       = Some (Inr (iam_user_collection ''cornelius''))
   \<and> clean (iam_user_collection ''cornelius'')
   \<and> seed_store example_externals [] = (None, ([], []))
   \<and> list_all (\<lambda>b. variable_block b \<or> output_block b
          \<longrightarrow> \<not> ordinary example_externals ''users_and_group'' b)
        (filter (\<lambda>b. \<not> is_Collection b) (concat (map items_of
          [iam_user_collection ''peanut'', PList [iam_user_collection ''cornelius''],
           Block ''resource.aws_iam_group.dogs'' (Some [(''name'', PStr ''dogs'')])])))
   \<and> list_all clean
        (filter is_Collection (concat (map items_of
          [iam_user_collection ''peanut'', PList [iam_user_collection ''cornelius''],
           Block ''resource.aws_iam_group.dogs'' (Some [(''name'', PStr ''dogs'')])])))
   \<and> collect example_externals users_and_group ''users_and_group'' 0 []
       = Some (Inr (PCollection
           [iam_user_block ''peanut'', iam_user_collection ''cornelius'',
            PDict [(''resource'', PDict [(''aws_iam_group'', PDict [(''dogs'',
              PDict [(''name'', PStr ''dogs'')])])])]] []))
   \<and> Collection_iter
         [iam_user_block ''peanut'', iam_user_collection ''cornelius'',
          PDict [(''resource'', PDict [(''aws_iam_group'', PDict [(''dogs'',
            PDict [(''name'', PStr ''dogs'')])])])]]
       = [iam_user_block ''peanut'', iam_user_block ''cornelius'',
          PDict [(''resource'', PDict [(''aws_iam_group'', PDict [(''dogs'',
            PDict [(''name'', PStr ''dogs'')])])])]]
   \<and> clean (PCollection
         [iam_user_block ''peanut'', iam_user_collection ''cornelius'',
          PDict [(''resource'', PDict [(''aws_iam_group'', PDict [(''dogs'',
            PDict [(''name'', PStr ''dogs'')])])])]] [])"
proof -
  let ?inner = "[Block ''variable.name'' None,
     Block ''variable.path'' (Some [(''default'', PStr ''/'')]),
     Block ''resource.aws_iam_user.cornelius''
       (Some [(''name'', PStr ''cornelius''), (''path'', PStr ''/'')]),
     Block ''output.name'' (Some [(''value'', PStr ''cornelius'')]),
     Block ''output.resource'' (Some [(''value'', Block ''resource.aws_iam_user.cornelius''
       (Some [(''name'', PStr ''cornelius''), (''path'', PStr ''/'')]))])]"
  let ?outer = "[iam_user_collection ''peanut'', PList [iam_user_collection ''cornelius''],
     Block ''resource.aws_iam_group.dogs'' (Some [(''name'', PStr ''dogs'')])]"
  let ?stored = "[iam_user_block ''peanut'', iam_user_collection ''cornelius'',
     PDict [(''resource'', PDict [(''aws_iam_group'', PDict [(''dogs'',
       PDict [(''name'', PStr ''dogs'')])])])]]"
  have inner_recognised:
    "list_all (\<lambda>b. variable_block b \<or> output_block b
        \<longrightarrow> \<not> ordinary example_externals ''iam_user'' b)
      (filter (\<lambda>b. \<not> is_Collection b) (concat (map items_of ?inner)))"
    by (simp add: items_of_def ordinary_def example_defs)
  have inner_nested: "list_all clean (filter is_Collection (concat (map items_of ?inner)))"
    by (simp add: items_of_def example_defs)
  note inner = collect_iteration [OF cornelius_seed cornelius_run]
  have inner_built: "collect example_externals iam_user ''iam_user'' (0, PNone)
      [(''name'', PStr ''cornelius'')] = Some (Inr (iam_user_collection ''cornelius''))"
    using conjunct1 [OF inner] by (simp add: iam_user_collection_def Block_def)
  have "clean (PCollection [iam_user_block ''cornelius'']
      [(''name'', PStr ''cornelius''),
       (''resource'', Block ''resource.aws_iam_user.cornelius''
          (Some [(''name'', PStr ''cornelius''), (''path'', PStr ''/'')]))])"
    using inner inner_recognised inner_nested by blast
  then have inner_clean: "clean (iam_user_collection ''cornelius'')"
    by (simp add: iam_user_collection_def Block_def)
  have seed: "seed_store example_externals [] = (None, ([], []))"
    by (simp add: seed_store_def example_externals_def)
  have recognised:
    "list_all (\<lambda>b. variable_block b \<or> output_block b
        \<longrightarrow> \<not> ordinary example_externals ''users_and_group'' b)
      (filter (\<lambda>b. \<not> is_Collection b) (concat (map items_of ?outer)))"
    by (simp add: items_of_def ordinary_def example_defs)
  have items: "filter is_Collection (concat (map items_of ?outer))
      = [iam_user_collection ''cornelius'']"
    by (simp add: items_of_def example_defs)
  have nested: "list_all clean (filter is_Collection (concat (map items_of ?outer)))"
    unfolding items using inner_clean by simp
  note outer = collect_iteration [OF seed users_and_group_run]
  have built: "collect example_externals users_and_group ''users_and_group'' 0 []
      = Some (Inr (PCollection ?stored []))"
    by (rule conjunct1 [OF outer])
  have flat: "concat (map leaves ?stored)
      = [iam_user_block ''peanut'', iam_user_block ''cornelius'',
         PDict [(''resource'', PDict [(''aws_iam_group'', PDict [(''dogs'',
           PDict [(''name'', PStr ''dogs'')])])])]]"
    by (simp add: iam_user_collection_def iam_user_block_def)
  have "Collection_iter ?stored = concat (map leaves ?stored)"
    by (rule conjunct1 [OF conjunct2 [OF conjunct2 [OF outer]]])
  then have iterated: "Collection_iter ?stored
      = [iam_user_block ''peanut'', iam_user_block ''cornelius'',
         PDict [(''resource'', PDict [(''aws_iam_group'', PDict [(''dogs'',
           PDict [(''name'', PStr ''dogs'')])])])]]"
    by (simp only: flat)
  have outer_clean: "clean (PCollection ?stored [])"
    using outer recognised nested by blast
  show ?thesis
    by (intro conjI cornelius_seed inner_built inner_clean seed recognised nested built
        iterated outer_clean)
qed

subsection \<open>Outputs\<close>

lemma map_of_dict_set: "map_of (dict_set k v d) = (map_of d)(k \<mapsto> v)"
  by (induction d) auto

lemma map_of_dict_update: "map_of (dict_update d pairs) = map_of d ++ map_of (rev pairs)"
proof (induction pairs arbitrary: d)
  case Nil
  then show ?case by (simp add: dict_update_def)
next
  case (Cons p pairs)
  obtain k v where p: "p = (k, v)" by (cases p)
  have "dict_update d (p # pairs) = dict_update (dict_set k v d) pairs"
    by (simp add: dict_update_def p)
  then have "map_of (dict_update d (p # pairs)) = (map_of d)(k \<mapsto> v) ++ map_of (rev pairs)"
    using Cons.IH [of "dict_set k v d"] by (simp only: map_of_dict_set)
  also have "(map_of d)(k \<mapsto> v) = map_of d ++ map_of [(k, v)]"
    by simp
  also have "map_of d ++ map_of [(k, v)] ++ map_of (rev pairs)
      = map_of d ++ map_of (rev (p # pairs))"
    by (simp only: p rev.simps map_of_append map_add_assoc)
  finally show ?case .
qed

text \<open>
  C9. Let a call of a collect factory return a Collection, and let \<open>ys\<close> be what its
  producer yielded. For every attribute name: when an output of that name was recorded
  during the run, \<open>__getattr__\<close> returns a recorded value of it (the last one recorded);
  otherwise it raises the error \<open>output not defined\<close>, and never returns.
\<close>

theorem Collection_getattr_outputs:
  assumes seed: "seed_store X kwargs = (None, s0)"
    and run: "collect_loop X (recording send) func_name (g, [], []) PNone (s0, [], [])
        = Some (Inr ((g', sent, ys), s', blocks, outputs))"
  shows "collect X send func_name g kwargs = Some (Inr (PCollection blocks outputs))
       \<and> Collection_getattr outputs name =
           (case map_of (rev (outputs_of X (concat (map items_of ys)))) name of
              Some v \<Rightarrow> Inr v
            | None \<Rightarrow> Inl (AttributeError (''output not defined: '' @ name)))
       \<and> (name \<in> fst ` set (outputs_of X (concat (map items_of ys))) \<longrightarrow>
            (\<exists>v. Collection_getattr outputs name = Inr v
                \<and> (name, v) \<in> set (outputs_of X (concat (map items_of ys)))))
       \<and> (name \<notin> fst ` set (outputs_of X (concat (map items_of ys))) \<longrightarrow>
            Collection_getattr outputs name
              = Inl (AttributeError (''output not defined: '' @ name)))"
proof -
  note facts = collect_run [OF seed run]
  define recorded where "recorded = outputs_of X (concat (map items_of ys))"
  have lookup: "map_of outputs = map_of (rev recorded)"
    using facts(4) by (simp add: map_of_dict_update recorded_def)
  have get: "Collection_getattr outputs name =
      (case map_of (rev recorded) name of
         Some v \<Rightarrow> Inr v
       | None \<Rightarrow> Inl (AttributeError (''output not defined: '' @ name)))"
    by (simp add: Collection_getattr_def lookup)
  have defined: "name \<in> fst ` set recorded \<longrightarrow>
      (\<exists>v. Collection_getattr outputs name = Inr v \<and> (name, v) \<in> set recorded)"
  proof
    assume "name \<in> fst ` set recorded"
    then have "map_of (rev recorded) name \<noteq> None"
      by (simp add: map_of_eq_None_iff)
    then obtain v where v: "map_of (rev recorded) name = Some v" by auto
    then have "(name, v) \<in> set recorded" using map_of_SomeD by fastforce
    with v get show "\<exists>v. Collection_getattr outputs name = Inr v \<and> (name, v) \<in> set recorded"
      by simp
  qed
  have undefined: "name \<notin> fst ` set recorded \<longrightarrow>
      Collection_getattr outputs name = Inl (AttributeError (''output not defined: '' @ name))"
  proof
    assume "name \<notin> fst ` set recorded"
    then have "map_of (rev recorded) name = None"
      by (simp add: map_of_eq_None_iff)
    with get show "Collection_getattr outputs name
        = Inl (AttributeError (''output not defined: '' @ name))" by simp
  qed
  show ?thesis
    using facts(1) get defined undefined unfolding recorded_def by blast
qed

lemma iam_user_run:
  "collect_loop example_externals (recording iam_user) ''iam_user'' ((0, PNone), [], []) PNone
     (([(''name'', PStr ''peanut'')], []), [], [])
   = Some (Inr (((6, Block ''resource.aws_iam_user.peanut''
                      (Some [(''name'', PStr ''peanut''), (''path'', PStr ''/'')])),
        [PNone,
         Block ''variable.name'' None,
         Block ''variable.path'' (Some [(''default'', PStr ''/'')]),
         Block ''resource.aws_iam_user.peanut''
           (Some [(''name'', PStr ''peanut''), (''path'', PStr ''/'')]),
         Block ''output.name'' (Some [(''value'', PStr ''peanut'')]),
         Block ''output.resource'' (Some [(''value'', Block ''resource.aws_iam_user.peanut''
           (Some [(''name'', PStr ''peanut''), (''path'', PStr ''/'')]))])],
        [Block ''variable.name'' None,
         Block ''variable.path'' (Some [(''default'', PStr ''/'')]),
         Block ''resource.aws_iam_user.peanut''
           (Some [(''name'', PStr ''peanut''), (''path'', PStr ''/'')]),
         Block ''output.name'' (Some [(''value'', PStr ''peanut'')]),
         Block ''output.resource'' (Some [(''value'', Block ''resource.aws_iam_user.peanut''
           (Some [(''name'', PStr ''peanut''), (''path'', PStr ''/'')]))])]),
       ([(''name'', PStr ''peanut''), (''path'', PStr ''/'')], []),
       [iam_user_block ''peanut''],
       [(''name'', PStr ''peanut''),
        (''resource'', Block ''resource.aws_iam_user.peanut''
           (Some [(''name'', PStr ''peanut''), (''path'', PStr ''/'')]))]))"
  by (simp add: collect_loop_yield collect_loop_stop iam_user_def example_defs)

lemma iam_user_seed:
  "seed_store example_externals [(''name'', PStr ''peanut'')]
     = (None, ([(''name'', PStr ''peanut'')], []))"
  by (simp add: seed_store_def example_externals_def example_add_def)

theorem Collection_getattr_outputs_witness:
  "seed_store example_externals [(''name'', PStr ''peanut'')]
     = (None, ([(''name'', PStr ''peanut'')], []))
   \<and> collect example_externals iam_user ''iam_user'' (0, PNone) [(''name'', PStr ''peanut'')]
       = Some (Inr (iam_user_collection ''peanut''))
   \<and> Collection_getattr
         [(''name'', PStr ''peanut''),
          (''resource'', Block ''resource.aws_iam_user.peanut''
             (Some [(''name'', PStr ''peanut''), (''path'', PStr ''/'')]))] ''name''
       = Inr (PStr ''peanut'')
   \<and> Collection_getattr
         [(''name'', PStr ''peanut''),
          (''resource'', Block ''resource.aws_iam_user.peanut''
             (Some [(''name'', PStr ''peanut''), (''path'', PStr ''/'')]))] ''nope''
       = Inl (AttributeError ''output not defined: nope'')"
proof -
  have recorded: "outputs_of example_externals (concat (map items_of
      [Block ''variable.name'' None,
       Block ''variable.path'' (Some [(''default'', PStr ''/'')]),
       Block ''resource.aws_iam_user.peanut''
         (Some [(''name'', PStr ''peanut''), (''path'', PStr ''/'')]),
       Block ''output.name'' (Some [(''value'', PStr ''peanut'')]),
       Block ''output.resource'' (Some [(''value'', Block ''resource.aws_iam_user.peanut''
         (Some [(''name'', PStr ''peanut''), (''path'', PStr ''/'')]))])]))
    = [(''name'', PStr ''peanut''),
       (''resource'', Block ''resource.aws_iam_user.peanut''
          (Some [(''name'', PStr ''peanut''), (''path'', PStr ''/'')]))]"
    by (simp add: outputs_of_def items_of_def example_defs)
  from Collection_getattr_outputs [OF iam_user_seed iam_user_run, of "''name''"]
    Collection_getattr_outputs [OF iam_user_seed iam_user_run, of "''nope''"]
    iam_user_seed
  show ?thesis
    unfolding recorded by (simp add: iam_user_collection_def Block_def)
qed

section \<open>Properties of RenderJob\<close>

text \<open>The two methods of the code do to the store what the specification says.\<close>

lemma classified_process:
  assumes "classified X job block s = Some s'"
  shows "(if endswith (job_output_name job) ''.tfvars.json''
          then process_tfvars_block X job block s
          else process_tf_block X job block s) = (None, s')"
proof (cases "endswith (job_output_name job) ''.tfvars.json''")
  case True
  show ?thesis
  proof (cases "tfvars_waiting_for X s (job_output_name job)")
    case waiting: True
    with True assms obtain pairs where block: "block = PDict pairs"
      by (cases block) (auto simp: classified_def)
    with True waiting assms show ?thesis
      by (auto simp: classified_def process_tfvars_block_def split: prod.splits option.splits)
  next
    case False
    with True assms show ?thesis
      by (simp add: classified_def process_tfvars_block_def)
  qed
next
  case False
  with assms show ?thesis
    by (auto simp: classified_def process_tf_block_def split: prod.splits option.splits)
qed

lemma classified_names:
  assumes "job_path_name job' = job_path_name job"
    and "job_output_name job' = job_output_name job"
  shows "classified X job' block s = classified X job block s"
  using assms by (simp add: classified_def cong: pyval.case_cong)

lemma classified_all_names:
  assumes "job_path_name job' = job_path_name job"
    and "job_output_name job' = job_output_name job"
  shows "classified_all X job' unwrapped s = classified_all X job unwrapped s"
proof (induction unwrapped arbitrary: s)
  case Nil
  show ?case by simp
next
  case (Cons b unwrapped)
  have "classified X job' b s = classified X job b s"
    by (rule classified_names [OF assms])
  with Cons show ?case
    by (simp split: option.splits)
qed

lemma run_blocks_classified:
  "classified_all X job unwrapped s = Some s'
   \<Longrightarrow> run_blocks X unwrapped job s
       = (Inr False, job\<lparr>job_blocks := job_blocks job @ unwrapped\<rparr>, s')"
proof (induction unwrapped arbitrary: job s)
  case Nil
  then show ?case by simp
next
  case (Cons b unwrapped)
  from Cons.prems obtain s1 where
    one: "classified X job b s = Some s1"
    and rest: "classified_all X job unwrapped s1 = Some s'"
    by (auto split: option.splits)
  from rest have "classified_all X (job\<lparr>job_blocks := job_blocks job @ [b]\<rparr>) unwrapped s1 = Some s'"
    using classified_all_names [of "job\<lparr>job_blocks := job_blocks job @ [b]\<rparr>" job X unwrapped s1]
    by simp
  from Cons.IH [OF this] classified_process [OF one] show ?case
    by simp
qed

lemma run_blocks_keeps:
  "run_blocks X unwrapped job s = (res, job', s')
   \<Longrightarrow> job_gen job' = job_gen job \<and> job_return_value job' = job_return_value job
       \<and> res \<noteq> Inr True"
proof (induction unwrapped arbitrary: job s)
  case Nil
  then show ?case by auto
next
  case (Cons b unwrapped)
  obtain err s1 where processed:
    "(if endswith (job_output_name job) ''.tfvars.json''
      then process_tfvars_block X job b s
      else process_tf_block X job b s) = (err, s1)"
    by (cases "if endswith (job_output_name job) ''.tfvars.json''
      then process_tfvars_block X job b s
      else process_tf_block X job b s")
  show ?case
  proof (cases err)
    case None
    with processed Cons.prems
    have "run_blocks X unwrapped (job\<lparr>job_blocks := job_blocks job @ [b]\<rparr>) s1 = (res, job', s')"
      by simp
    from Cons.IH [OF this] show ?thesis by simp
  next
    case (Some e)
    with processed Cons.prems show ?thesis by auto
  qed
qed

text \<open>
  C6. One call of \<open>run\<close> resumes the producer once, with the value kept from the step
  before. When the producer has ended, \<open>run\<close> tells the store that the output file
  exists (\<open>file_created\<close> with the output name) and returns \<open>True\<close>. When the producer
  yielded and nothing raised, \<open>run\<close> has classified each unwrapped block in order, as
  the specification says for the kind of the file, has appended every one of them to
  the blocks of the job in the order of emission, keeps the yielded value for the next
  step, and returns \<open>False\<close>.
\<close>

theorem run_advances_one_step:
  "(send (job_gen job) (job_return_value job) r = (StopIteration, g', r') \<longrightarrow>
      run X send job r
        = (Inr True, job\<lparr>job_gen := g'\<rparr>,
           r'\<lparr>variables := file_created X (variables r') (job_output_name job)\<rparr>))
   \<and> (send (job_gen job) (job_return_value job) r = (Yielded y, g', r')
        \<and> unwrap_yielded y = Inr unwrapped
        \<and> classified_all X job unwrapped (variables r') = Some s' \<longrightarrow>
      run X send job r
        = (Inr False,
           job\<lparr>job_gen := g', job_return_value := y,
               job_blocks := job_blocks job @ unwrapped\<rparr>,
           r'\<lparr>variables := s'\<rparr>))"
proof (intro conjI impI)
  assume "send (job_gen job) (job_return_value job) r = (StopIteration, g', r')"
  then show "run X send job r
      = (Inr True, job\<lparr>job_gen := g'\<rparr>,
         r'\<lparr>variables := file_created X (variables r') (job_output_name job)\<rparr>)"
    by (simp add: run_def)
next
  assume a: "send (job_gen job) (job_return_value job) r = (Yielded y, g', r')
      \<and> unwrap_yielded y = Inr unwrapped
      \<and> classified_all X job unwrapped (variables r') = Some s'"
  then have "classified_all X (job\<lparr>job_gen := g', job_return_value := y\<rparr>) unwrapped (variables r')
      = Some s'"
    using classified_all_names [of "job\<lparr>job_gen := g', job_return_value := y\<rparr>" job X unwrapped
        "variables r'"]
    by simp
  from run_blocks_classified [OF this] a
  show "run X send job r
      = (Inr False,
         job\<lparr>job_gen := g', job_return_value := y, job_blocks := job_blocks job @ unwrapped\<rparr>,
         r'\<lparr>variables := s'\<rparr>)"
    by (simp add: run_def)
qed

theorem run_advances_one_step_witness:
  "on_store group_file 0 PNone
       (\<lparr>jobs = [], done_jobs = [], variables = ([], [])\<rparr> :: (nat, example_store) Renderer)
     = (Yielded (Block ''variable.path'' (Some [(''default'', PStr ''/'')])), 1,
        \<lparr>jobs = [], done_jobs = [], variables = ([], [])\<rparr>)
   \<and> classified_all example_externals
         (RenderJob_init ''b.tf.py'' ''b.tf.json'' ''b.tf.json'' (0 :: nat))
         [PDict [(''variable'', PDict [(''path'', PDict [(''default'', PStr ''/'')])])]] ([], [])
       = Some ([(''path'', PStr ''/'')], [])
   \<and> run example_externals (on_store group_file)
         (RenderJob_init ''b.tf.py'' ''b.tf.json'' ''b.tf.json'' 0)
         \<lparr>jobs = [], done_jobs = [], variables = ([], [])\<rparr>
       = (Inr False,
          \<lparr>job_path_name = ''b.tf.py'', job_gen = 1, job_done = False,
           job_output_path = ''b.tf.json'', job_output_name = ''b.tf.json'',
           job_return_value = Block ''variable.path'' (Some [(''default'', PStr ''/'')]),
           job_blocks =
             [PDict [(''variable'', PDict [(''path'', PDict [(''default'', PStr ''/'')])])]]\<rparr>,
          \<lparr>jobs = [], done_jobs = [], variables = ([(''path'', PStr ''/'')], [])\<rparr>)
   \<and> classified_all example_externals
         (RenderJob_init ''vars.tfvars.py'' ''vars.tfvars.json'' ''vars.tfvars.json'' (0 :: nat))
         [PDict [(''user'', PStr ''peanut'')]] ([], [])
       = Some ([(''user'', PStr ''peanut'')], [])
   \<and> run example_externals (on_store vars_file)
         (RenderJob_init ''vars.tfvars.py'' ''vars.tfvars.json'' ''vars.tfvars.json'' 0)
         \<lparr>jobs = [], done_jobs = [], variables = ([], [])\<rparr>
       = (Inr False,
          \<lparr>job_path_name = ''vars.tfvars.py'', job_gen = 1, job_done = False,
           job_output_path = ''vars.tfvars.json'', job_output_name = ''vars.tfvars.json'',
           job_return_value = PDict [(''user'', PStr ''peanut'')],
           job_blocks = [PDict [(''user'', PStr ''peanut'')]]\<rparr>,
          \<lparr>jobs = [], done_jobs = [], variables = ([(''user'', PStr ''peanut'')], [])\<rparr>)
   \<and> on_store vars_file 1 (PDict [(''user'', PStr ''peanut'')])
       (\<lparr>jobs = [], done_jobs = [], variables = ([(''user'', PStr ''peanut'')], [])\<rparr>
          :: (nat, example_store) Renderer)
     = (StopIteration, 2,
        \<lparr>jobs = [], done_jobs = [], variables = ([(''user'', PStr ''peanut'')], [])\<rparr>)
   \<and> run example_externals (on_store vars_file)
         \<lparr>job_path_name = ''vars.tfvars.py'', job_gen = 1, job_done = False,
          job_output_path = ''vars.tfvars.json'', job_output_name = ''vars.tfvars.json'',
          job_return_value = PDict [(''user'', PStr ''peanut'')],
          job_blocks = [PDict [(''user'', PStr ''peanut'')]]\<rparr>
         \<lparr>jobs = [], done_jobs = [], variables = ([(''user'', PStr ''peanut'')], [])\<rparr>
       = (Inr True,
          \<lparr>job_path_name = ''vars.tfvars.py'', job_gen = 2, job_done = False,
           job_output_path = ''vars.tfvars.json'', job_output_name = ''vars.tfvars.json'',
           job_return_value = PDict [(''user'', PStr ''peanut'')],
           job_blocks = [PDict [(''user'', PStr ''peanut'')]]\<rparr>,
          \<lparr>jobs = [], done_jobs = [],
           variables = ([(''user'', PStr ''peanut'')], [''vars.tfvars.json''])\<rparr>)"
proof -
  let ?r0 = "\<lparr>jobs = [], done_jobs = [], variables = ([], [])\<rparr>
    :: (nat, example_store) Renderer"
  let ?r1 = "\<lparr>jobs = [], done_jobs = [], variables = ([(''user'', PStr ''peanut'')], [])\<rparr>
    :: (nat, example_store) Renderer"
  let ?tf = "RenderJob_init ''b.tf.py'' ''b.tf.json'' ''b.tf.json'' (0 :: nat)"
  let ?tfvars = "RenderJob_init ''vars.tfvars.py'' ''vars.tfvars.json'' ''vars.tfvars.json''
    (0 :: nat)"
  let ?tfvars1 = "\<lparr>job_path_name = ''vars.tfvars.py'', job_gen = 1 :: nat, job_done = False,
     job_output_path = ''vars.tfvars.json'', job_output_name = ''vars.tfvars.json'',
     job_return_value = PDict [(''user'', PStr ''peanut'')],
     job_blocks = [PDict [(''user'', PStr ''peanut'')]]\<rparr>"
  have tf_yields: "on_store group_file (job_gen ?tf) (job_return_value ?tf) ?r0
      = (Yielded (Block ''variable.path'' (Some [(''default'', PStr ''/'')])), 1, ?r0)"
    by (simp add: on_store_def group_file_def RenderJob_init_def)
  have tf_unwrapped: "unwrap_yielded (Block ''variable.path'' (Some [(''default'', PStr ''/'')]))
      = Inr [PDict [(''variable'', PDict [(''path'', PDict [(''default'', PStr ''/'')])])]]"
    by (simp add: example_defs)
  have tf_classified: "classified_all example_externals ?tf
      [PDict [(''variable'', PDict [(''path'', PDict [(''default'', PStr ''/'')])])]]
      (variables ?r0) = Some ([(''path'', PStr ''/'')], [])"
    by (simp add: classified_def endswith_def RenderJob_init_def example_defs)
  note tf_step = run_advances_one_step
    [where X = example_externals and send = "on_store group_file" and job = ?tf and r = ?r0
      and y = "Block ''variable.path'' (Some [(''default'', PStr ''/'')])" and g' = 1
      and r' = ?r0
      and unwrapped = "[PDict [(''variable'', PDict [(''path'', PDict [(''default'', PStr ''/'')])])]]"
      and s' = "([(''path'', PStr ''/'')], [])"]
  from mp [OF conjunct2 [OF tf_step] conjI [OF tf_yields conjI [OF tf_unwrapped tf_classified]]]
  have c3: "run example_externals (on_store group_file) ?tf ?r0
      = (Inr False,
         \<lparr>job_path_name = ''b.tf.py'', job_gen = 1, job_done = False,
          job_output_path = ''b.tf.json'', job_output_name = ''b.tf.json'',
          job_return_value = Block ''variable.path'' (Some [(''default'', PStr ''/'')]),
          job_blocks =
            [PDict [(''variable'', PDict [(''path'', PDict [(''default'', PStr ''/'')])])]]\<rparr>,
         \<lparr>jobs = [], done_jobs = [], variables = ([(''path'', PStr ''/'')], [])\<rparr>)"
    by (simp add: RenderJob_init_def)
  have vars_yields: "on_store vars_file (job_gen ?tfvars) (job_return_value ?tfvars) ?r0
      = (Yielded (PDict [(''user'', PStr ''peanut'')]), 1, ?r0)"
    by (simp add: on_store_def vars_file_def RenderJob_init_def)
  have vars_unwrapped: "unwrap_yielded (PDict [(''user'', PStr ''peanut'')])
      = Inr [PDict [(''user'', PStr ''peanut'')]]"
    by simp
  have vars_classified: "classified_all example_externals ?tfvars
      [PDict [(''user'', PStr ''peanut'')]] (variables ?r0)
      = Some ([(''user'', PStr ''peanut'')], [])"
    by (simp add: classified_def endswith_def RenderJob_init_def example_defs)
  note vars_step = run_advances_one_step
    [where X = example_externals and send = "on_store vars_file" and job = ?tfvars and r = ?r0
      and y = "PDict [(''user'', PStr ''peanut'')]" and g' = 1 and r' = ?r0
      and unwrapped = "[PDict [(''user'', PStr ''peanut'')]]"
      and s' = "([(''user'', PStr ''peanut'')], [])"]
  from mp [OF conjunct2 [OF vars_step]
      conjI [OF vars_yields conjI [OF vars_unwrapped vars_classified]]]
  have c5: "run example_externals (on_store vars_file) ?tfvars ?r0
      = (Inr False, ?tfvars1, ?r1)"
    by (simp add: RenderJob_init_def)
  have vars_stops: "on_store vars_file (job_gen ?tfvars1) (job_return_value ?tfvars1) ?r1
      = (StopIteration, 2, ?r1)"
    by (simp add: on_store_def vars_file_def)
  note vars_end = run_advances_one_step
    [where X = example_externals and send = "on_store vars_file" and job = ?tfvars1
      and r = ?r1 and g' = 2 and r' = ?r1]
  from mp [OF conjunct1 [OF vars_end] vars_stops]
  have c7: "run example_externals (on_store vars_file) ?tfvars1 ?r1
      = (Inr True, ?tfvars1\<lparr>job_gen := 2\<rparr>,
         \<lparr>jobs = [], done_jobs = [],
          variables = ([(''user'', PStr ''peanut'')], [''vars.tfvars.json''])\<rparr>)"
    by (simp add: example_externals_def)
  have c1: "on_store group_file 0 PNone ?r0
      = (Yielded (Block ''variable.path'' (Some [(''default'', PStr ''/'')])), 1, ?r0)"
    using tf_yields by (simp add: RenderJob_init_def)
  have c2: "classified_all example_externals ?tf
      [PDict [(''variable'', PDict [(''path'', PDict [(''default'', PStr ''/'')])])]] ([], [])
      = Some ([(''path'', PStr ''/'')], [])"
    using tf_classified by simp
  have c4: "classified_all example_externals ?tfvars
      [PDict [(''user'', PStr ''peanut'')]] ([], []) = Some ([(''user'', PStr ''peanut'')], [])"
    using vars_classified by simp
  have c6: "on_store vars_file 1 (PDict [(''user'', PStr ''peanut'')]) ?r1
      = (StopIteration, 2, ?r1)"
    using vars_stops by simp
  have c7': "run example_externals (on_store vars_file) ?tfvars1 ?r1
      = (Inr True,
         \<lparr>job_path_name = ''vars.tfvars.py'', job_gen = 2, job_done = False,
          job_output_path = ''vars.tfvars.json'', job_output_name = ''vars.tfvars.json'',
          job_return_value = PDict [(''user'', PStr ''peanut'')],
          job_blocks = [PDict [(''user'', PStr ''peanut'')]]\<rparr>,
         \<lparr>jobs = [], done_jobs = [],
          variables = ([(''user'', PStr ''peanut'')], [''vars.tfvars.json''])\<rparr>)"
    unfolding c7 by simp
  show ?thesis by (intro conjI c1 c2 c3 c4 c5 c6 c7')
qed

text \<open>
  C10. Run under observation, a producer that \<open>collect\<close> drives to its end has been sent
  \<open>None\<close> first and then, at each resumption, the value it yielded just before, as it
  was yielded. The same holds of a job: a new job is about to send \<open>None\<close>, and each call
  of \<open>run\<close> sends the value kept from the step before and keeps the value yielded now,
  unchanged. (Objects are values here: the value sent is equal to the value yielded.)
\<close>

theorem resumed_with_yielded_value:
  "(collect_loop X (recording send) func_name (g, [], []) PNone st
        = Some (Inr ((g', sent, ys), rest)) \<longrightarrow>
      sent = PNone # ys)
   \<and> echoed (RenderJob_init path_name output_path output_name (g0, [], []))
   \<and> (echoed job \<and> run Y (recording rsend) job r = (res, job', r') \<longrightarrow>
        (case res of
           Inr finished \<Rightarrow>
             if finished then fst (snd (job_gen job')) = PNone # snd (snd (job_gen job'))
             else echoed job'
         | Inl e \<Rightarrow>
             echoed job' \<or> fst (snd (job_gen job')) = PNone # snd (snd (job_gen job'))))"
proof (intro conjI impI)
  assume run: "collect_loop X (recording send) func_name (g, [], []) PNone st
      = Some (Inr ((g', sent, ys), rest))"
  obtain s' blocks' outputs' where rest: "rest = (s', blocks', outputs')" by (cases rest)
  from collect_loop_trace [OF run [unfolded rest] refl refl]
  show "sent = PNone # ys" by auto
next
  show "echoed (RenderJob_init path_name output_path output_name (g0, [], []))"
    by (simp add: echoed_def RenderJob_init_def)
next
  assume a: "echoed job \<and> run Y (recording rsend) job r = (res, job', r')"
  obtain gj sent ylog where gen: "job_gen job = (gj, sent, ylog)" by (cases "job_gen job")
  obtain out g1 r1 where snd: "rsend gj (job_return_value job) r = (out, g1, r1)"
    by (cases "rsend gj (job_return_value job) r")
  from a gen have inv: "sent @ [job_return_value job] = PNone # ylog"
    by (simp add: echoed_def)
  show "case res of
      Inr finished \<Rightarrow>
        if finished then fst (snd (job_gen job')) = PNone # snd (snd (job_gen job'))
        else echoed job'
    | Inl e \<Rightarrow> echoed job' \<or> fst (snd (job_gen job')) = PNone # snd (snd (job_gen job'))"
  proof (cases out)
    case StopIteration
    with a gen snd inv show ?thesis
      by (auto simp: run_def recording_def)
  next
    case (Raises e)
    with a gen snd inv show ?thesis
      by (auto simp: run_def recording_def)
  next
    case (Yielded y)
    let ?job1 = "job\<lparr>job_gen := (g1, sent @ [job_return_value job], ylog @ [y]),
      job_return_value := y\<rparr>"
    have e1: "echoed ?job1" using inv by (simp add: echoed_def)
    show ?thesis
    proof (cases "unwrap_yielded y")
      case (Inl e)
      with Yielded a gen snd e1 show ?thesis
        by (auto simp: run_def recording_def)
    next
      case (Inr unwrapped)
      obtain res1 job1 s1 where rb: "run_blocks Y unwrapped ?job1 (variables r1) = (res1, job1, s1)"
        by (cases "run_blocks Y unwrapped ?job1 (variables r1)")
      with Inr Yielded a gen snd have res: "res = res1" and job': "job' = job1"
        by (auto simp: run_def recording_def)
      from run_blocks_keeps [OF rb] e1 have "echoed job1" and "res1 \<noteq> Inr True"
        by (auto simp: echoed_def)
      with res job' show ?thesis by (cases res1) auto
    qed
  qed
qed

theorem resumed_with_yielded_value_witness:
  "collect_loop example_externals (recording users_and_group) ''users_and_group''
       (0, [], []) PNone (([], []), [], [])
     = Some (Inr ((4,
          [PNone, iam_user_collection ''peanut'', PList [iam_user_collection ''cornelius''],
           Block ''resource.aws_iam_group.dogs'' (Some [(''name'', PStr ''dogs'')])],
          [iam_user_collection ''peanut'', PList [iam_user_collection ''cornelius''],
           Block ''resource.aws_iam_group.dogs'' (Some [(''name'', PStr ''dogs'')])]),
         ([], []),
         [iam_user_block ''peanut'', iam_user_collection ''cornelius'',
          PDict [(''resource'', PDict [(''aws_iam_group'', PDict [(''dogs'',
            PDict [(''name'', PStr ''dogs'')])])])]],
         []))
   \<and> [PNone, iam_user_collection ''peanut'', PList [iam_user_collection ''cornelius''],
        Block ''resource.aws_iam_group.dogs'' (Some [(''name'', PStr ''dogs'')])]
       = PNone # [iam_user_collection ''peanut'', PList [iam_user_collection ''cornelius''],
        Block ''resource.aws_iam_group.dogs'' (Some [(''name'', PStr ''dogs'')])]
   \<and> echoed (RenderJob_init ''iam.tf.py'' ''iam.tf.json'' ''iam.tf.json''
         ((0 :: nat, PNone), [], []))
   \<and> run example_externals (recording (on_store iam_user))
         (RenderJob_init ''iam.tf.py'' ''iam.tf.json'' ''iam.tf.json'' ((0, PNone), [], []))
         \<lparr>jobs = [], done_jobs = [], variables = ([(''name'', PStr ''peanut'')], [])\<rparr>
       = (Inr False,
          \<lparr>job_path_name = ''iam.tf.py'',
           job_gen = ((1, PNone), [PNone], [Block ''variable.name'' None]),
           job_done = False,
           job_output_path = ''iam.tf.json'', job_output_name = ''iam.tf.json'',
           job_return_value = Block ''variable.name'' None,
           job_blocks = [PDict [(''variable'', PDict [(''name'', PDict [])])]]\<rparr>,
          \<lparr>jobs = [], done_jobs = [], variables = ([(''name'', PStr ''peanut'')], [])\<rparr>)
   \<and> echoed
         \<lparr>job_path_name = ''iam.tf.py'',
          job_gen = ((1 :: nat, PNone), [PNone], [Block ''variable.name'' None]),
          job_done = False,
          job_output_path = ''iam.tf.json'', job_output_name = ''iam.tf.json'',
          job_return_value = Block ''variable.name'' None,
          job_blocks = [PDict [(''variable'', PDict [(''name'', PDict [])])]]\<rparr>"
proof -
  let ?r = "\<lparr>jobs = [], done_jobs = [], variables = ([(''name'', PStr ''peanut'')], [])\<rparr>
    :: ((nat \<times> pyval) \<times> pyval list \<times> pyval list, example_store) Renderer"
  let ?job0 = "RenderJob_init ''iam.tf.py'' ''iam.tf.json'' ''iam.tf.json''
    ((0 :: nat, PNone), [] :: pyval list, [] :: pyval list)"
  let ?job1 = "\<lparr>job_path_name = ''iam.tf.py'',
     job_gen = ((1 :: nat, PNone), [PNone], [Block ''variable.name'' None]),
     job_done = False,
     job_output_path = ''iam.tf.json'', job_output_name = ''iam.tf.json'',
     job_return_value = Block ''variable.name'' None,
     job_blocks = [PDict [(''variable'', PDict [(''name'', PDict [])])]]\<rparr>"
  have step: "run example_externals (recording (on_store iam_user)) ?job0 ?r
      = (Inr False, ?job1, ?r)"
    by (simp add: run_def on_store_def iam_user_def RenderJob_init_def endswith_def
        process_tf_block_def example_defs)
  have sent: "[PNone, iam_user_collection ''peanut'', PList [iam_user_collection ''cornelius''],
        Block ''resource.aws_iam_group.dogs'' (Some [(''name'', PStr ''dogs'')])]
      = PNone # [iam_user_collection ''peanut'', PList [iam_user_collection ''cornelius''],
        Block ''resource.aws_iam_group.dogs'' (Some [(''name'', PStr ''dogs'')])]"
    by (rule mp [OF conjunct1 [OF resumed_with_yielded_value] users_and_group_run])
  have e0: "echoed ?job0"
    by (rule conjunct1 [OF conjunct2 [OF resumed_with_yielded_value]])
  from mp [OF conjunct2 [OF conjunct2 [OF resumed_with_yielded_value]] conjI [OF e0 step]]
  have e1: "echoed ?job1" by (simp only: sum.case if_False)
  show ?thesis by (intro conjI users_and_group_run sent e0 step e1)
qed

subsection \<open>Contents\<close>

lemma keys_dict_set: "fst ` set (dict_set k v d) = insert k (fst ` set d)"
proof (induction d)
  case Nil
  show ?case by simp
next
  case (Cons p d)
  obtain k' v' where p: "p = (k', v')" by (cases p)
  show ?case
  proof (cases "k' = k")
    case True
    with p show ?thesis by simp
  next
    case False
    with p Cons show ?thesis by (simp add: insert_commute)
  qed
qed

lemma wf_dict_set: "wf_dict d \<Longrightarrow> wf_dict (dict_set k v d)"
  unfolding wf_dict_def
proof (induction d)
  case Nil
  then show ?case by simp
next
  case (Cons p d)
  obtain k' v' where p: "p = (k', v')" by (cases p)
  from Cons p show ?case
    using keys_dict_set [of k v d] by auto
qed

lemma wf_dict_update: "wf_dict d \<Longrightarrow> wf_dict (dict_update d pairs)"
proof (induction pairs arbitrary: d)
  case Nil
  then show ?case by (simp add: dict_update_def)
next
  case (Cons p pairs)
  obtain k v where p: "p = (k, v)" by (cases p)
  have "dict_update d (p # pairs) = dict_update (dict_set k v d) pairs"
    by (simp add: dict_update_def p)
  with Cons.IH [OF wf_dict_set [OF Cons.prems, of k v]] show ?case by simp
qed

lemma map_of_rev_distinct:
  assumes "distinct (map fst xs)"
  shows "map_of (rev xs) = map_of xs"
proof
  fix k
  show "map_of (rev xs) k = map_of xs k"
  proof (cases "map_of xs k")
    case None
    then have "map_of (rev xs) k = None" by (simp add: map_of_eq_None_iff)
    with None show ?thesis by simp
  next
    case (Some v)
    then have "(k, v) \<in> set (rev xs)" using map_of_SomeD by fastforce
    moreover have "distinct (map fst (rev xs))"
      using assms by (simp add: rev_map [symmetric])
    ultimately have "map_of (rev xs) k = Some v" by (rule map_of_is_SomeI [rotated])
    with Some show ?thesis by simp
  qed
qed

lemma map_of_rev_concat:
  "list_all wf_dict ds \<Longrightarrow> map_of (rev (concat ds)) = foldl (++) Map.empty (map map_of ds)"
proof (induction ds rule: rev_induct)
  case Nil
  then show ?case by simp
next
  case (snoc d ds)
  then have "map_of (rev d) = map_of d"
    by (simp add: map_of_rev_distinct wf_dict_def)
  with snoc show ?case by simp
qed

lemma merge_blocks_dicts:
  "list_all is_dict blocks
   \<Longrightarrow> merge_blocks X blocks merged = Inr (dict_update merged (concat (dicts_of blocks)))"
proof (induction blocks arbitrary: merged)
  case Nil
  then show ?case by (simp add: dict_update_def)
next
  case (Cons b blocks)
  then obtain d where b: "b = PDict d" by (cases b) auto
  with Cons show ?case by (simp add: dict_update_append)
qed

text \<open>
  C7. The contents of a variable-value file (the output name ends in \<open>.tfvars.json\<close>),
  all of whose collected blocks are mappings, is one flat mapping: no key twice, and
  each key has the value of the last block that has it, later blocks overriding earlier
  ones. The contents of any other file is the list of the collected blocks, in order and
  as recorded.
\<close>

theorem contents_assembly:
  "(endswith (job_output_name job) ''.tfvars.json''
      \<and> list_all is_dict (job_blocks job)
      \<and> list_all wf_dict (dicts_of (job_blocks job)) \<longrightarrow>
        contents X job = Inr (PDict (dict_update [] (concat (dicts_of (job_blocks job)))))
      \<and> wf_dict (dict_update [] (concat (dicts_of (job_blocks job))))
      \<and> map_of (dict_update [] (concat (dicts_of (job_blocks job))))
          = foldl (++) Map.empty (map map_of (dicts_of (job_blocks job))))
   \<and> (\<not> endswith (job_output_name job) ''.tfvars.json'' \<longrightarrow>
        contents X job = Inr (PList (job_blocks job)))"
proof (intro conjI impI)
  assume a: "endswith (job_output_name job) ''.tfvars.json''
      \<and> list_all is_dict (job_blocks job)
      \<and> list_all wf_dict (dicts_of (job_blocks job))"
  then show "contents X job = Inr (PDict (dict_update [] (concat (dicts_of (job_blocks job)))))"
    by (simp add: contents_def merge_blocks_dicts)
  show "wf_dict (dict_update [] (concat (dicts_of (job_blocks job))))"
    by (rule wf_dict_update) (simp add: wf_dict_def)
  from a show "map_of (dict_update [] (concat (dicts_of (job_blocks job))))
      = foldl (++) Map.empty (map map_of (dicts_of (job_blocks job)))"
    by (simp add: map_of_dict_update map_of_rev_concat)
next
  assume "\<not> endswith (job_output_name job) ''.tfvars.json''"
  then show "contents X job = Inr (PList (job_blocks job))"
    by (simp add: contents_def)
qed

theorem contents_assembly_witness:
  "endswith ''vars.tfvars.json'' ''.tfvars.json''
   \<and> list_all is_dict
        [PDict [(''a'', PInt 1), (''b'', PInt 2)], PDict [(''b'', PInt 3), (''c'', PInt 4)]]
   \<and> list_all wf_dict
        (dicts_of [PDict [(''a'', PInt 1), (''b'', PInt 2)], PDict [(''b'', PInt 3), (''c'', PInt 4)]])
   \<and> contents example_externals
         ((RenderJob_init ''vars.tfvars.py'' ''vars.tfvars.json'' ''vars.tfvars.json'' (0 :: nat))
            \<lparr>job_blocks := [PDict [(''a'', PInt 1), (''b'', PInt 2)],
                            PDict [(''b'', PInt 3), (''c'', PInt 4)]]\<rparr>)
       = Inr (PDict [(''a'', PInt 1), (''b'', PInt 3), (''c'', PInt 4)])
   \<and> \<not> endswith ''iam.tf.json'' ''.tfvars.json''
   \<and> contents example_externals
         ((RenderJob_init ''iam.tf.py'' ''iam.tf.json'' ''iam.tf.json'' (0 :: nat))
            \<lparr>job_blocks := [iam_user_block ''peanut'', iam_user_block ''cornelius'']\<rparr>)
       = Inr (PList [iam_user_block ''peanut'', iam_user_block ''cornelius''])"
proof -
  let ?vars = "(RenderJob_init ''vars.tfvars.py'' ''vars.tfvars.json'' ''vars.tfvars.json''
      (0 :: nat))
    \<lparr>job_blocks := [PDict [(''a'', PInt 1), (''b'', PInt 2)],
                    PDict [(''b'', PInt 3), (''c'', PInt 4)]]\<rparr>"
  let ?iam = "(RenderJob_init ''iam.tf.py'' ''iam.tf.json'' ''iam.tf.json'' (0 :: nat))
    \<lparr>job_blocks := [iam_user_block ''peanut'', iam_user_block ''cornelius'']\<rparr>"
  have tfvars: "endswith ''vars.tfvars.json'' ''.tfvars.json''"
    by (simp add: endswith_def)
  have dicts: "list_all is_dict
      [PDict [(''a'', PInt 1), (''b'', PInt 2)], PDict [(''b'', PInt 3), (''c'', PInt 4)]]"
    by simp
  have wf: "list_all wf_dict
      (dicts_of [PDict [(''a'', PInt 1), (''b'', PInt 2)], PDict [(''b'', PInt 3), (''c'', PInt 4)]])"
    by (simp add: wf_dict_def)
  have tf: "\<not> endswith ''iam.tf.json'' ''.tfvars.json''"
    by (simp add: endswith_def)
  have merged: "dict_update [] (concat (dicts_of
      [PDict [(''a'', PInt 1), (''b'', PInt 2)], PDict [(''b'', PInt 3), (''c'', PInt 4)]]))
    = [(''a'', PInt 1), (''b'', PInt 3), (''c'', PInt 4)]"
    by (simp add: dict_update_def)
  have c1: "contents example_externals ?vars
      = Inr (PDict [(''a'', PInt 1), (''b'', PInt 3), (''c'', PInt 4)])"
    using contents_assembly [of ?vars example_externals] tfvars dicts wf merged
    by (simp add: RenderJob_init_def)
  have c2: "contents example_externals ?iam
      = Inr (PList [iam_user_block ''peanut'', iam_user_block ''cornelius''])"
    using contents_assembly [of ?iam example_externals] tf
    by (simp add: RenderJob_init_def)
  show ?thesis by (intro conjI tfvars dicts wf c1 tf c2)
qed

section \<open>Properties of Renderer\<close>

lemma process_jobs_empty: "jobs r = [] \<Longrightarrow> process_jobs X send until r = Some (None, r)"
  by (subst process_jobs.simps) simp

lemma process_jobs_reached:
  "until_reached X until r \<Longrightarrow> process_jobs X send until r = Some (None, r)"
  by (subst process_jobs.simps) simp

lemma process_jobs_step:
  "jobs r \<noteq> [] \<Longrightarrow> \<not> until_reached X until r
   \<Longrightarrow> process_jobs X send until r
       = (case run X send (last (jobs r)) (r\<lparr>jobs := butlast (jobs r)\<rparr>) of
            (Inl e, job, r1) \<Rightarrow> Some (Some e, r1)
          | (Inr finished, job, r1) \<Rightarrow>
              process_jobs X send until
                (if finished then r1\<lparr>done_jobs := done_jobs r1 @ [job]\<rparr>
                 else r1\<lparr>jobs := jobs r1 @ [job]\<rparr>))"
  by (subst process_jobs.simps) simp

lemma process_jobs_post:
  assumes "process_jobs X send until r = Some res"
    and "res = (None, r')"
  shows "jobs r' = [] \<or> until_reached X until r'"
  using assms(2)
proof (induction X send until r res arbitrary: r' rule: process_jobs.raw_induct)
  case (1 loop X send until r res)
  note IH = "1.IH" and eq = "1.hyps" and res = "1.prems"
  show ?case
  proof (cases "jobs r = []")
    case True
    with eq res show ?thesis by simp
  next
    case False
    show ?thesis
    proof (cases "until_reached X until r")
      case True
      with False eq res show ?thesis by simp
    next
      case reached: False
      obtain out job r1 where ran:
        "run X send (last (jobs r)) (r\<lparr>jobs := butlast (jobs r)\<rparr>) = (out, job, r1)"
        by (cases "run X send (last (jobs r)) (r\<lparr>jobs := butlast (jobs r)\<rparr>)")
      show ?thesis
      proof (cases out)
        case (Inl e)
        with False reached ran eq res show ?thesis by simp
      next
        case (Inr finished)
        with False reached ran eq
        have "loop X send until
            (if finished then r1\<lparr>done_jobs := done_jobs r1 @ [job]\<rparr>
             else r1\<lparr>jobs := jobs r1 @ [job]\<rparr>) = Some res"
          by simp
        from IH [OF this res] show ?thesis .
      qed
    qed
  qed
qed (rule assms(1))

text \<open>
  C8. When \<open>process_jobs\<close> returns, the stack of pending jobs is empty or the \<open>until\<close>
  variable it was called with is in the store. Without \<open>until\<close> it returns only with an
  empty stack, and \<open>render\<close> then assembles the results of the completed jobs. While
  there is a pending job and the \<open>until\<close> variable is not there, one round pops the job
  pushed last, advances it one step, and moves it to the completed jobs when it has
  finished or pushes it back when it has not. As soon as the \<open>until\<close> variable is in the
  store the loop returns, and leaves the pending jobs as they are.
\<close>

theorem process_jobs_returns:
  "(process_jobs X send until r = Some (None, r') \<longrightarrow>
      jobs r' = []
      \<or> (\<exists>name. until = Some name \<and> name \<noteq> [] \<and> store_contains X (variables r') name))
   \<and> (process_jobs X send None r = Some (None, r') \<longrightarrow>
      jobs r' = [] \<and> render X send r = Some (render_results X (done_jobs r') [], r'))
   \<and> (jobs r \<noteq> [] \<and> \<not> until_reached X until r \<longrightarrow>
      process_jobs X send until r
        = (case run X send (last (jobs r)) (r\<lparr>jobs := butlast (jobs r)\<rparr>) of
             (Inl e, job, r1) \<Rightarrow> Some (Some e, r1)
           | (Inr finished, job, r1) \<Rightarrow>
               process_jobs X send until
                 (if finished then r1\<lparr>done_jobs := done_jobs r1 @ [job]\<rparr>
                  else r1\<lparr>jobs := jobs r1 @ [job]\<rparr>)))
   \<and> (until_reached X until r \<longrightarrow> process_jobs X send until r = Some (None, r))"
proof (intro conjI impI)
  assume "process_jobs X send until r = Some (None, r')"
  from process_jobs_post [OF this refl]
  show "jobs r' = []
      \<or> (\<exists>name. until = Some name \<and> name \<noteq> [] \<and> store_contains X (variables r') name)"
    by (auto simp: until_reached_def split: option.splits)
next
  assume a: "process_jobs X send None r = Some (None, r')"
  from process_jobs_post [OF this refl] show "jobs r' = []"
    by (simp add: until_reached_def)
  from a show "render X send r = Some (render_results X (done_jobs r') [], r')"
    by (simp add: render_def)
next
  assume "jobs r \<noteq> [] \<and> \<not> until_reached X until r"
  then show "process_jobs X send until r
      = (case run X send (last (jobs r)) (r\<lparr>jobs := butlast (jobs r)\<rparr>) of
           (Inl e, job, r1) \<Rightarrow> Some (Some e, r1)
         | (Inr finished, job, r1) \<Rightarrow>
             process_jobs X send until
               (if finished then r1\<lparr>done_jobs := done_jobs r1 @ [job]\<rparr>
                else r1\<lparr>jobs := jobs r1 @ [job]\<rparr>))"
    by (simp add: process_jobs_step)
next
  assume "until_reached X until r"
  then show "process_jobs X send until r = Some (None, r)"
    by (rule process_jobs_reached)
qed

lemmas example_run_defs = run_def on_store_def group_file_def RenderJob_init_def endswith_def
  process_tf_block_def until_reached_def two_files_def example_defs

theorem process_jobs_returns_witness:
  "process_jobs example_externals (on_store group_file) (Some ''path'') two_files
     = Some (None,
        \<lparr>jobs =
           [RenderJob_init ''a.tf.py'' ''a.tf.json'' ''a.tf.json'' 0,
            \<lparr>job_path_name = ''b.tf.py'', job_gen = 1, job_done = False,
             job_output_path = ''b.tf.json'', job_output_name = ''b.tf.json'',
             job_return_value = Block ''variable.path'' (Some [(''default'', PStr ''/'')]),
             job_blocks =
               [PDict [(''variable'', PDict [(''path'', PDict [(''default'', PStr ''/'')])])]]\<rparr>],
         done_jobs = [], variables = ([(''path'', PStr ''/'')], [])\<rparr>)
   \<and> store_contains example_externals ([(''path'', PStr ''/'')], []) ''path''
   \<and> render example_externals (on_store group_file) two_files
     = Some (Inr [(''b.tf.json'', PList
                   [PDict [(''variable'', PDict [(''path'', PDict [(''default'', PStr ''/'')])])],
                    PDict [(''resource'', PDict [(''aws_iam_group'', PDict [(''dogs'',
                      PDict [(''name'', PStr ''dogs'')])])])]]),
                 (''a.tf.json'', PList
                   [PDict [(''variable'', PDict [(''path'', PDict [(''default'', PStr ''/'')])])],
                    PDict [(''resource'', PDict [(''aws_iam_group'', PDict [(''dogs'',
                      PDict [(''name'', PStr ''dogs'')])])])]])],
        \<lparr>jobs = [],
         done_jobs =
           [\<lparr>job_path_name = ''b.tf.py'', job_gen = 3, job_done = False,
             job_output_path = ''b.tf.json'', job_output_name = ''b.tf.json'',
             job_return_value =
               Block ''resource.aws_iam_group.dogs'' (Some [(''name'', PStr ''dogs'')]),
             job_blocks =
               [PDict [(''variable'', PDict [(''path'', PDict [(''default'', PStr ''/'')])])],
                PDict [(''resource'', PDict [(''aws_iam_group'', PDict [(''dogs'',
                  PDict [(''name'', PStr ''dogs'')])])])]]\<rparr>,
            \<lparr>job_path_name = ''a.tf.py'', job_gen = 3, job_done = False,
             job_output_path = ''a.tf.json'', job_output_name = ''a.tf.json'',
             job_return_value =
               Block ''resource.aws_iam_group.dogs'' (Some [(''name'', PStr ''dogs'')]),
             job_blocks =
               [PDict [(''variable'', PDict [(''path'', PDict [(''default'', PStr ''/'')])])],
                PDict [(''resource'', PDict [(''aws_iam_group'', PDict [(''dogs'',
                  PDict [(''name'', PStr ''dogs'')])])])]]\<rparr>],
         variables = ([(''path'', PStr ''/'')], [''b.tf.json'', ''a.tf.json''])\<rparr>)
   \<and> jobs two_files \<noteq> [] \<and> \<not> until_reached example_externals None two_files
   \<and> process_jobs example_externals (on_store group_file) None two_files
     = process_jobs example_externals (on_store group_file) None
        \<lparr>jobs =
           [RenderJob_init ''a.tf.py'' ''a.tf.json'' ''a.tf.json'' 0,
            \<lparr>job_path_name = ''b.tf.py'', job_gen = 1, job_done = False,
             job_output_path = ''b.tf.json'', job_output_name = ''b.tf.json'',
             job_return_value = Block ''variable.path'' (Some [(''default'', PStr ''/'')]),
             job_blocks =
               [PDict [(''variable'', PDict [(''path'', PDict [(''default'', PStr ''/'')])])]]\<rparr>],
         done_jobs = [], variables = ([(''path'', PStr ''/'')], [])\<rparr>
   \<and> until_reached example_externals (Some ''path'')
        (two_files\<lparr>variables := ([(''path'', PStr ''/'')], [])\<rparr>)
   \<and> process_jobs example_externals (on_store group_file) (Some ''path'')
        (two_files\<lparr>variables := ([(''path'', PStr ''/'')], [])\<rparr>)
     = Some (None, two_files\<lparr>variables := ([(''path'', PStr ''/'')], [])\<rparr>)"
proof -
  let ?b1 = "\<lparr>job_path_name = ''b.tf.py'', job_gen = 1 :: nat, job_done = False,
     job_output_path = ''b.tf.json'', job_output_name = ''b.tf.json'',
     job_return_value = Block ''variable.path'' (Some [(''default'', PStr ''/'')]),
     job_blocks =
       [PDict [(''variable'', PDict [(''path'', PDict [(''default'', PStr ''/'')])])]]\<rparr>"
  let ?r1 = "\<lparr>jobs = [RenderJob_init ''a.tf.py'' ''a.tf.json'' ''a.tf.json'' 0, ?b1],
     done_jobs = [], variables = ([(''path'', PStr ''/'')], [])\<rparr>
    :: (nat, example_store) Renderer"
  let ?blocks = "[PDict [(''variable'', PDict [(''path'', PDict [(''default'', PStr ''/'')])])],
     PDict [(''resource'', PDict [(''aws_iam_group'', PDict [(''dogs'',
       PDict [(''name'', PStr ''dogs'')])])])]]"
  let ?b3 = "\<lparr>job_path_name = ''b.tf.py'', job_gen = 3 :: nat, job_done = False,
     job_output_path = ''b.tf.json'', job_output_name = ''b.tf.json'',
     job_return_value =
       Block ''resource.aws_iam_group.dogs'' (Some [(''name'', PStr ''dogs'')]),
     job_blocks = ?blocks\<rparr>"
  let ?a3 = "\<lparr>job_path_name = ''a.tf.py'', job_gen = 3 :: nat, job_done = False,
     job_output_path = ''a.tf.json'', job_output_name = ''a.tf.json'',
     job_return_value =
       Block ''resource.aws_iam_group.dogs'' (Some [(''name'', PStr ''dogs'')]),
     job_blocks = ?blocks\<rparr>"
  let ?rF = "\<lparr>jobs = [], done_jobs = [?b3, ?a3],
     variables = ([(''path'', PStr ''/'')], [''b.tf.json'', ''a.tf.json''])\<rparr>
    :: (nat, example_store) Renderer"
  let ?rU = "two_files\<lparr>variables := ([(''path'', PStr ''/'')], [])\<rparr>"
  have part: "process_jobs example_externals (on_store group_file) (Some ''path'') two_files
      = Some (None, ?r1)"
    by (simp add: process_jobs_step process_jobs_empty process_jobs_reached example_run_defs)
  have full: "process_jobs example_externals (on_store group_file) None two_files
      = Some (None, ?rF)"
    by (simp add: process_jobs_step process_jobs_empty example_run_defs)
  from mp [OF conjunct1 [OF process_jobs_returns] part]
  have there: "store_contains example_externals ([(''path'', PStr ''/'')], []) ''path''"
    by simp
  from mp [OF conjunct1 [OF conjunct2 [OF process_jobs_returns]] full]
  have "render example_externals (on_store group_file) two_files
      = Some (render_results example_externals (done_jobs ?rF) [], ?rF)"
    by (rule conjunct2)
  then have rendered: "render example_externals (on_store group_file) two_files
      = Some (Inr [(''b.tf.json'', PList ?blocks), (''a.tf.json'', PList ?blocks)], ?rF)"
    by (simp add: contents_def endswith_def)
  have pending: "jobs two_files \<noteq> []" by (simp add: two_files_def)
  have not_yet: "\<not> until_reached example_externals None two_files"
    by (simp add: until_reached_def)
  note one_round = process_jobs_returns
    [where X = example_externals and send = "on_store group_file" and until = None
      and r = two_files]
  from mp [OF conjunct1 [OF conjunct2 [OF conjunct2 [OF one_round]]] conjI [OF pending not_yet]]
  have round: "process_jobs example_externals (on_store group_file) None two_files
      = process_jobs example_externals (on_store group_file) None ?r1"
    by (simp add: example_run_defs)
  have reached: "until_reached example_externals (Some ''path'') ?rU"
    by (simp add: until_reached_def example_externals_def)
  have stops: "process_jobs example_externals (on_store group_file) (Some ''path'') ?rU
      = Some (None, ?rU)"
    by (rule mp [OF conjunct2 [OF conjunct2 [OF conjunct2 [OF process_jobs_returns]]] reached])
  show ?thesis
    by (intro conjI part there rendered pending not_yet round reached stops)
qed

end
